theory Spec2Isabelle
  imports Complex_Main "HOL-Library.Word" "HOL-Library.Signed_Division" "HOL-Library.Log_Nat"
begin

section \<open>SimpleOVR\_D3D11: data\<close>

text \<open>
  The program is one translation unit, \<^verbatim>\<open>SimpleOVR_D3D11.cpp\<close>: \<^verbatim>\<open>WinMain\<close>, which
  sets up LibOVR and Direct3D 11, runs the frame loop and cleans up, with \<^verbatim>\<open>SetupScene\<close>
  and \<^verbatim>\<open>DestroyScene\<close> for the scene objects. The embedding computes the program's local
  values from what the platform returns, and records the calls the program makes to
  LibOVR, Win32 and Direct3D, in order, as a list of events (the getters of a shader blob
  and the filling of structures in memory are not events). The window procedure
  \<^verbatim>\<open>WndProc\<close> is run by Windows inside \<^verbatim>\<open>DispatchMessage\<close>; what it posts comes back
  through the message queue, which is an input. The events are those of a run in which
  every object is created; what the program does when the creation of an object fails
  is the subject of the section on failing calls. The other calls return a status that
  the program never reads.

  A C++ \<^verbatim>\<open>int\<close> is a 32-bit word read as two's complement (\<open>sint\<close>) and a \<^verbatim>\<open>UINT\<close> a
  32-bit word read unsigned (\<open>uint\<close>). Arithmetic on
  \<^verbatim>\<open>int\<close> wraps around in the model (the compiler the example targets does so; the C++
  standard leaves signed overflow undefined). A \<^verbatim>\<open>float\<close> is modelled by the real number
  it denotes: a literal of the program is the exact value of the single-precision float
  nearest to it, and the conversion of an \<^verbatim>\<open>int\<close> rounds to 24 significant bits. The
  program does no other arithmetic on floats: it passes them to LibOVR's mathematics,
  which is not part of the repository and is a parameter of the model.
\<close>

type_synonym int32 = "32 word"
type_synonym UINT = "32 word"

text \<open>Signed comparison, \<^verbatim>\<open>std::max\<close> and the truncating division of C++ on \<^verbatim>\<open>int\<close>.\<close>

definition int32_less :: "int32 \<Rightarrow> int32 \<Rightarrow> bool" where
  "int32_less a b = (sint a < sint b)"

definition std_max :: "int32 \<Rightarrow> int32 \<Rightarrow> int32" where
  "std_max a b = (if int32_less a b then b else a)"

definition int32_div :: "int32 \<Rightarrow> int32 \<Rightarrow> int32" where
  "int32_div a b = word_of_int (sint a sdiv sint b)"

text \<open>Conversion of an \<^verbatim>\<open>int\<close> to \<^verbatim>\<open>UINT\<close> (same bits).\<close>

definition to_UINT :: "int32 \<Rightarrow> UINT" where
  "to_UINT a = ucast a"

text \<open>
  \<^verbatim>\<open>static_cast<float>\<close> of an \<^verbatim>\<open>int\<close>: the nearest number with 24 significant bits, a
  tie going to the even one. \<open>nearest_float\<close> rounds the magnitude: \<open>q\<close> is the weight of
  the last bit kept.
\<close>

definition nearest_float :: "nat \<Rightarrow> nat" where
  "nearest_float n =
     (let q = 2 ^ (nat (bitlen (int n)) - 24); m = n div q; r = n mod q
      in (if 2 * r < q \<or> (2 * r = q \<and> even m) then m else m + 1) * q)"

definition to_float :: "int32 \<Rightarrow> real" where
  "to_float a =
     (if sint a < 0 then - real (nearest_float (nat (- sint a)))
      else real (nearest_float (nat (sint a))))"

text \<open>
  An array of two elements (\<^verbatim>\<open>T a[2]\<close>). The program indexes such arrays with the
  literals 0 and 1, with the loop counter \<^verbatim>\<open>i < 2\<close> and with an \<^verbatim>\<open>ovrEyeType\<close>, so
  every read is in range.
\<close>

datatype 'a array2 = Array2 'a 'a

fun nth2 :: "'a array2 \<Rightarrow> nat \<Rightarrow> 'a" where
  "nth2 (Array2 a b) 0 = a"
| "nth2 (Array2 a b) (Suc n) = b"

datatype ovrEyeType = ovrEye_Left | ovrEye_Right

fun eye_index :: "ovrEyeType \<Rightarrow> nat" where
  "eye_index ovrEye_Left = 0"
| "eye_index ovrEye_Right = 1"

record ovrSizei =
  Size_w :: int32
  Size_h :: int32

record ovrVector2i =
  Pos_x :: int32
  Pos_y :: int32

record ovrRecti =
  Pos :: ovrVector2i
  Size :: ovrSizei

record ovrFovPort =
  UpTan :: real
  DownTan :: real
  LeftTan :: real
  RightTan :: real

record Vector3f =
  vx :: real
  vy :: real
  vz :: real

record Quatf =
  qx :: real
  qy :: real
  qz :: real
  qw :: real

record Posef =
  Rotation :: Quatf
  Translation :: Vector3f

text \<open>\<^verbatim>\<open>float M[4][4]\<close>, row by row.\<close>

record Matrix4f =
  M :: "nat \<Rightarrow> nat \<Rightarrow> real"

text \<open>The fields of \<^verbatim>\<open>ovrHmdDesc\<close> and \<^verbatim>\<open>ovrEyeRenderDesc\<close> that the program reads.\<close>

record ovrHmdDesc =
  Resolution :: ovrSizei
  DefaultEyeFov :: "ovrFovPort array2"
  EyeRenderOrder :: "ovrEyeType array2"

record ovrEyeRenderDesc =
  Fov :: ovrFovPort
  HmdToEyeViewOffset :: Vector3f

text \<open>
  The graphics objects. Each pointer variable of the program is assigned at most one
  object, so an object is named by the variable that receives it; a pointer is an
  option, \<^verbatim>\<open>nullptr\<close> being \<open>None\<close>.
\<close>

datatype resource =
    d3dSwapChain | d3dDevice | d3dContext
  | pBackBuffer | d3dBackBufferRenderTargetView
  | d3dDepthStencilTexture | d3dDepthStencilView
  | d3dEyeTexture | d3dEyeTextureShaderResourceView | d3dEyeTextureRenderTargetView
  | d3dIntermediaryTexture | d3dIntermediaryTextureShaderResourceView
  | d3dIntermediaryTextureRenderTargetView
  | d3dBlobVertexShader | d3dVertexShader | d3dBlobPixelShader | d3dPixelShader
  | d3dInputLayout | d3dVertexBuffer | d3dConstantBuffer

datatype DXGI_FORMAT =
    DXGI_FORMAT_UNKNOWN | DXGI_FORMAT_R8G8B8A8_UNORM | DXGI_FORMAT_D24_UNORM_S8_UINT

datatype D3D11_BIND_FLAG =
    D3D11_BIND_DEPTH_STENCIL | D3D11_BIND_SHADER_RESOURCE | D3D11_BIND_RENDER_TARGET

text \<open>
  \<^verbatim>\<open>D3D11_TEXTURE2D_DESC\<close>; the bind flags are the set of flags or-ed together, and
  \<^verbatim>\<open>ZeroMemory\<close> leaves 0, the unknown format and no flag.
\<close>

record D3D11_TEXTURE2D_DESC =
  Width :: UINT
  Height :: UINT
  MipLevels :: UINT
  ArraySize :: UINT
  Format :: DXGI_FORMAT
  SampleDesc_Count :: UINT
  SampleDesc_Quality :: UINT
  BindFlags :: "D3D11_BIND_FLAG set"

definition ZeroMemory_TEXTURE2D_DESC :: D3D11_TEXTURE2D_DESC where
  "ZeroMemory_TEXTURE2D_DESC =
     \<lparr>Width = 0, Height = 0, MipLevels = 0, ArraySize = 0, Format = DXGI_FORMAT_UNKNOWN,
      SampleDesc_Count = 0, SampleDesc_Quality = 0, BindFlags = {}\<rparr>"

record D3D11_VIEWPORT =
  TopLeftX :: real
  TopLeftY :: real
  vp_Width :: real
  vp_Height :: real
  MinDepth :: real
  MaxDepth :: real

text \<open>\<^verbatim>\<open>ovrD3D11Texture\<close>: the header \<^verbatim>\<open>D3D11.Header\<close> and the two pointers.\<close>

datatype ovrRenderAPIType = ovrRenderAPI_None | ovrRenderAPI_D3D11

record ovrD3D11Texture =
  Header_API :: ovrRenderAPIType
  Header_TextureSize :: ovrSizei
  Header_RenderViewport :: ovrRecti
  pTexture :: "resource option"
  pSRView :: "resource option"

section \<open>Constants of the program\<close>

definition PixelsPerDisplayPixel :: real where
  "PixelsPerDisplayPixel = 1.0"

text \<open>\<^verbatim>\<open>const int MultisampleCount = 4; // Set to 1 to disable multisampling\<close>.
  The functions below take the count as their first argument \<open>msc\<close>, so that both
  settings are covered; the program as shipped is the instance at \<open>MultisampleCount\<close>.\<close>

definition MultisampleCount :: int32 where
  "MultisampleCount = 4"

definition UpVector :: Vector3f where
  "UpVector = \<lparr>vx = 0, vy = 1, vz = 0\<rparr>"

definition ForwardVector :: Vector3f where
  "ForwardVector = \<lparr>vx = 0, vy = 0, vz = -1\<rparr>"

definition BodyPosition :: Vector3f where
  "BodyPosition = \<lparr>vx = 0.5, vy = 0.5, vz = 0\<rparr>"

text \<open>\<^verbatim>\<open>BodyYaw{ 0.9f }\<close>: the float nearest to 0.9 is \<open>15099494 / 2 ^ 24\<close>.\<close>

definition BodyYaw :: real where
  "BodyYaw = 15099494 / 2 ^ 24"

definition EXIT_SUCCESS :: int where
  "EXIT_SUCCESS = 0"

definition EXIT_FAILURE :: int where
  "EXIT_FAILURE = 1"

text \<open>The two message codes the loop tests, with their values in the Windows SDK.\<close>

definition WM_QUIT :: UINT where
  "WM_QUIT = 0x0012"

definition WM_KEYDOWN :: UINT where
  "WM_KEYDOWN = 0x0100"

section \<open>The platform\<close>

text \<open>
  What LibOVR and Windows answer is an input of the program: the HMD that
  \<^verbatim>\<open>ovrHmd_Create(0)\<close> returns (\<open>None\<close> for \<^verbatim>\<open>nullptr\<close>), the texture size LibOVR
  recommends, the eye render descriptors that \<^verbatim>\<open>ovrHmd_ConfigureRendering\<close> writes, the
  messages found in the queue in the \<open>n\<close>-th iteration of the loop and the eye poses
  predicted in it. LibOVR's mathematics (\<^verbatim>\<open>OVR_Math.h\<close>, \<^verbatim>\<open>ovrMatrix4f_Projection\<close>) is
  not part of the repository and is taken as it comes.
\<close>

record platform =
  hmd_Create :: "ovrHmdDesc option"
  hmd_GetFovTextureSize :: "ovrEyeType \<Rightarrow> ovrFovPort \<Rightarrow> real \<Rightarrow> ovrSizei"
  hmd_ConfigureRendering :: "ovrFovPort array2 \<Rightarrow> ovrEyeRenderDesc array2"
  hmd_GetEyePoses :: "nat \<Rightarrow> Vector3f array2 \<Rightarrow> Posef array2"
  message_queue :: "nat \<Rightarrow> UINT list"
  Matrix4f_Projection :: "ovrFovPort \<Rightarrow> real \<Rightarrow> real \<Rightarrow> bool \<Rightarrow> Matrix4f"
  Quatf_axis_angle :: "Vector3f \<Rightarrow> real \<Rightarrow> Quatf"
  Quatf_times :: "Quatf \<Rightarrow> Quatf \<Rightarrow> Quatf"
  Quatf_Rotate :: "Quatf \<Rightarrow> Vector3f \<Rightarrow> Vector3f"
  Vector3f_plus :: "Vector3f \<Rightarrow> Vector3f \<Rightarrow> Vector3f"
  Matrix4f_LookAtRH :: "Vector3f \<Rightarrow> Vector3f \<Rightarrow> Vector3f \<Rightarrow> Matrix4f"
  Matrix4f_times :: "Matrix4f \<Rightarrow> Matrix4f \<Rightarrow> Matrix4f"
  Matrix4f_Transposed :: "Matrix4f \<Rightarrow> Matrix4f"

text \<open>
  The calls the program makes, with the arguments the properties below are about:
  \<open>Call\<close> for a call whose arguments are constants, \<open>Create\<close> for a call that creates an
  object (the object it is created from, if any, and the variable that receives it),
  \<open>Use\<close> for a call on the device context that takes one object.
\<close>

datatype call =
    SetProcessDPIAware | ovr_Initialize | MessageBox | ovr_Shutdown
  | ovrHmd_ConfigureTracking | LoadCursor | RegisterClassEx | ovrHmd_SetEnabledCaps
  | ovrHmd_AttachToWindow | IASetPrimitiveTopology | ovrHmd_RecenterPose
  | ovrHmd_DismissHSWDisplay | ovrHmd_Destroy

datatype creator =
    GetBuffer | CreateRenderTargetView | CreateDepthStencilView | CreateShaderResourceView
  | D3DCompile | CreateVertexShader | CreatePixelShader | CreateInputLayout | CreateBuffer

datatype context_call =
    IASetInputLayout | IASetVertexBuffers | VSSetShader | PSSetShader
  | VSSetConstantBuffers | ClearRenderTargetView | ClearDepthStencilView
  | Map_WRITE_DISCARD | Unmap

datatype event =
    Call call
  | ovrHmd_Create nat
  | ovrHmd_GetFovTextureSize ovrEyeType ovrFovPort real
  | CreateWindowW int32 int32
  | D3D11CreateDeviceAndSwapChain UINT UINT UINT resource resource resource
  | Create creator "resource option" resource
  | CreateTexture2D D3D11_TEXTURE2D_DESC resource
  | ovrHmd_ConfigureRendering "ovrFovPort array2"
  | Use context_call resource
  | Release resource
  | PeekMessage "UINT option"
  | TranslateMessage UINT
  | DispatchMessage UINT
  | ovrHmd_BeginFrame nat
  | ovrHmd_GetEyePoses nat
  | OMSetRenderTargets resource resource
  | RSSetViewports D3D11_VIEWPORT
  | memcpy "real list"
  | Draw nat nat
  | ResolveSubresource "resource option" resource
  | ovrHmd_EndFrame "Posef array2" "ovrD3D11Texture array2"

section \<open>WinMain: initialization\<close>

text \<open>Lines 172 to 177: the texture size for each eye and the size of the shared target.\<close>

definition ovrEyeDimsLeft :: "platform \<Rightarrow> ovrHmdDesc \<Rightarrow> ovrSizei" where
  "ovrEyeDimsLeft p vrHmd =
     hmd_GetFovTextureSize p ovrEye_Left (nth2 (DefaultEyeFov vrHmd) 0) PixelsPerDisplayPixel"

definition ovrEyeDimsRight :: "platform \<Rightarrow> ovrHmdDesc \<Rightarrow> ovrSizei" where
  "ovrEyeDimsRight p vrHmd =
     hmd_GetFovTextureSize p ovrEye_Right (nth2 (DefaultEyeFov vrHmd) 0) PixelsPerDisplayPixel"

definition renderTargetSize :: "platform \<Rightarrow> ovrHmdDesc \<Rightarrow> ovrSizei" where
  "renderTargetSize p vrHmd =
     \<lparr>Size_w = Size_w (ovrEyeDimsLeft p vrHmd) + Size_w (ovrEyeDimsRight p vrHmd),
      Size_h = std_max (Size_h (ovrEyeDimsLeft p vrHmd)) (Size_h (ovrEyeDimsRight p vrHmd))\<rparr>"

text \<open>Lines 180 to 183: the viewport of each eye, from the size of the target.\<close>

definition vrEyeRenderViewport :: "ovrSizei \<Rightarrow> ovrRecti array2" where
  "vrEyeRenderViewport rts =
     (let vp0 = \<lparr>Pos = \<lparr>Pos_x = 0, Pos_y = 0\<rparr>,
                 Size = \<lparr>Size_w = int32_div (Size_w rts) 2, Size_h = Size_h rts\<rparr>\<rparr>;
          vp1 = \<lparr>Pos = \<lparr>Pos_x = int32_div (Size_w rts + 1) 2, Pos_y = 0\<rparr>,
                 Size = Size vp0\<rparr>
      in Array2 vp0 vp1)"

text \<open>Lines 187 and 188.\<close>

definition vrEyeFov :: "ovrHmdDesc \<Rightarrow> ovrFovPort array2" where
  "vrEyeFov vrHmd = Array2 (nth2 (DefaultEyeFov vrHmd) 0) (nth2 (DefaultEyeFov vrHmd) 1)"

text \<open>Lines 279 to 287: the descriptor of the depth-stencil texture.\<close>

definition dtd :: "int32 \<Rightarrow> ovrSizei \<Rightarrow> D3D11_TEXTURE2D_DESC" where
  "dtd msc rts =
     ZeroMemory_TEXTURE2D_DESC
       \<lparr>Width := to_UINT (Size_w rts),
        Height := to_UINT (Size_h rts),
        MipLevels := 1,
        ArraySize := 1,
        Format := DXGI_FORMAT_D24_UNORM_S8_UINT,
        BindFlags := {D3D11_BIND_DEPTH_STENCIL},
        SampleDesc_Count := to_UINT msc\<rparr>"

text \<open>Lines 299 to 308: the descriptor of the eye texture.\<close>

definition texdesc :: "int32 \<Rightarrow> ovrSizei \<Rightarrow> D3D11_TEXTURE2D_DESC" where
  "texdesc msc rts =
     ZeroMemory_TEXTURE2D_DESC
       \<lparr>Width := to_UINT (Size_w rts),
        Height := to_UINT (Size_h rts),
        MipLevels := 1,
        ArraySize := 1,
        Format := DXGI_FORMAT_R8G8B8A8_UNORM,
        SampleDesc_Count := to_UINT msc,
        BindFlags := {D3D11_BIND_SHADER_RESOURCE, D3D11_BIND_RENDER_TARGET}\<rparr>"

text \<open>Lines 315 to 327: the descriptor of the intermediary texture, never multisampled.\<close>

definition texdesc_intermediary :: "ovrSizei \<Rightarrow> D3D11_TEXTURE2D_DESC" where
  "texdesc_intermediary rts =
     ZeroMemory_TEXTURE2D_DESC
       \<lparr>Width := to_UINT (Size_w rts),
        Height := to_UINT (Size_h rts),
        MipLevels := 1,
        ArraySize := 1,
        Format := DXGI_FORMAT_R8G8B8A8_UNORM,
        SampleDesc_Count := 1,
        SampleDesc_Quality := 0,
        BindFlags := {D3D11_BIND_SHADER_RESOURCE, D3D11_BIND_RENDER_TARGET}\<rparr>"

text \<open>
  The three pointers to the intermediary objects start as \<^verbatim>\<open>nullptr\<close> (lines 136 to 138)
  and are assigned only inside \<^verbatim>\<open>if (MultisampleCount > 1)\<close> (lines 313 to 331).
\<close>

definition multisampling :: "int32 \<Rightarrow> bool" where
  "multisampling msc = int32_less 1 msc"

definition intermediary_ptr :: "int32 \<Rightarrow> resource \<Rightarrow> resource option" where
  "intermediary_ptr msc r = (if multisampling msc then Some r else None)"

text \<open>Lines 335 to 351: the two texture descriptors handed to LibOVR.\<close>

definition vrEyeTexture :: "int32 \<Rightarrow> ovrSizei \<Rightarrow> ovrD3D11Texture array2" where
  "vrEyeTexture msc rts =
     (let t0 = \<lparr>Header_API = ovrRenderAPI_D3D11,
                 Header_TextureSize = rts,
                 Header_RenderViewport = nth2 (vrEyeRenderViewport rts) 0,
                 pTexture =
                   (if multisampling msc then intermediary_ptr msc d3dIntermediaryTexture
                    else Some d3dEyeTexture),
                 pSRView =
                   (if multisampling msc
                    then intermediary_ptr msc d3dIntermediaryTextureShaderResourceView
                    else Some d3dEyeTextureShaderResourceView)\<rparr>;
          t1 = t0\<lparr>Header_RenderViewport := nth2 (vrEyeRenderViewport rts) 1\<rparr>
      in Array2 t0 t1)"

text \<open>Lines 363, 371 to 374: the eye render descriptors and the offsets taken from them.\<close>

definition vrEyeRenderDesc :: "platform \<Rightarrow> ovrHmdDesc \<Rightarrow> ovrEyeRenderDesc array2" where
  "vrEyeRenderDesc p vrHmd = hmd_ConfigureRendering p (vrEyeFov vrHmd)"

definition vrHmdToEyeViewOffset :: "platform \<Rightarrow> ovrHmdDesc \<Rightarrow> Vector3f array2" where
  "vrHmdToEyeViewOffset p vrHmd =
     Array2 (HmdToEyeViewOffset (nth2 (vrEyeRenderDesc p vrHmd) 0))
            (HmdToEyeViewOffset (nth2 (vrEyeRenderDesc p vrHmd) 1))"

text \<open>\<^verbatim>\<open>SetupScene\<close> (lines 540 to 596) and \<^verbatim>\<open>DestroyScene\<close> (lines 598 to 604).\<close>

definition SetupScene :: "event list" where
  "SetupScene =
     [Create D3DCompile None d3dBlobVertexShader,
      Create CreateVertexShader (Some d3dBlobVertexShader) d3dVertexShader,
      Create D3DCompile None d3dBlobPixelShader,
      Create CreatePixelShader (Some d3dBlobPixelShader) d3dPixelShader,
      Create CreateInputLayout (Some d3dBlobVertexShader) d3dInputLayout,
      Create CreateBuffer None d3dVertexBuffer,
      Create CreateBuffer None d3dConstantBuffer,
      Use IASetInputLayout d3dInputLayout,
      Use IASetVertexBuffers d3dVertexBuffer,
      Call IASetPrimitiveTopology,
      Use VSSetShader d3dVertexShader,
      Use PSSetShader d3dPixelShader,
      Use VSSetConstantBuffers d3dConstantBuffer,
      Release d3dBlobPixelShader,
      Release d3dBlobVertexShader]"

definition DestroyScene :: "event list" where
  "DestroyScene =
     [Release d3dConstantBuffer,
      Release d3dVertexBuffer,
      Release d3dInputLayout,
      Release d3dVertexShader,
      Release d3dPixelShader]"

text \<open>Lines 148 to 158, up to the test of \<^verbatim>\<open>vrHmd\<close>.\<close>

definition startup :: "event list" where
  "startup = [Call SetProcessDPIAware, Call ovr_Initialize, ovrHmd_Create 0]"

text \<open>Lines 162 to 164: no HMD.\<close>

definition no_hmd :: "event list" where
  "no_hmd = [Call MessageBox, Call ovr_Shutdown]"

text \<open>Lines 168 to 378: everything between the test of \<^verbatim>\<open>vrHmd\<close> and the loop.\<close>

definition initialization :: "int32 \<Rightarrow> platform \<Rightarrow> ovrHmdDesc \<Rightarrow> event list" where
  "initialization msc p vrHmd =
     [Call ovrHmd_ConfigureTracking,
      ovrHmd_GetFovTextureSize ovrEye_Left (nth2 (DefaultEyeFov vrHmd) 0) PixelsPerDisplayPixel,
      ovrHmd_GetFovTextureSize ovrEye_Right (nth2 (DefaultEyeFov vrHmd) 0) PixelsPerDisplayPixel,
      Call LoadCursor,
      Call RegisterClassEx,
      CreateWindowW 1280 720,
      D3D11CreateDeviceAndSwapChain
        (to_UINT (Size_w (Resolution vrHmd))) (to_UINT (Size_h (Resolution vrHmd)))
        (to_UINT msc) d3dSwapChain d3dDevice d3dContext,
      Create GetBuffer (Some d3dSwapChain) pBackBuffer,
      Create CreateRenderTargetView (Some pBackBuffer) d3dBackBufferRenderTargetView,
      Release pBackBuffer,
      CreateTexture2D (dtd msc (renderTargetSize p vrHmd)) d3dDepthStencilTexture,
      Create CreateDepthStencilView (Some d3dDepthStencilTexture) d3dDepthStencilView,
      CreateTexture2D (texdesc msc (renderTargetSize p vrHmd)) d3dEyeTexture,
      Create CreateShaderResourceView (Some d3dEyeTexture) d3dEyeTextureShaderResourceView,
      Create CreateRenderTargetView (Some d3dEyeTexture) d3dEyeTextureRenderTargetView]
     @ (if multisampling msc
        then [CreateTexture2D (texdesc_intermediary (renderTargetSize p vrHmd))
                d3dIntermediaryTexture,
              Create CreateShaderResourceView (Some d3dIntermediaryTexture)
                d3dIntermediaryTextureShaderResourceView,
              Create CreateRenderTargetView (Some d3dIntermediaryTexture)
                d3dIntermediaryTextureRenderTargetView]
        else [])
     @ [ovrHmd_ConfigureRendering (vrEyeFov vrHmd),
        Call ovrHmd_SetEnabledCaps,
        Call ovrHmd_AttachToWindow]
     @ SetupScene"

section \<open>WinMain: the frame loop\<close>

text \<open>
  Lines 383 to 397: the inner loop takes the messages out of the queue one by one until
  \<^verbatim>\<open>PeekMessage\<close> finds none. \<open>message_events\<close> is the body for one message.
\<close>

definition message_events :: "UINT \<Rightarrow> event list" where
  "message_events msg =
     PeekMessage (Some msg)
     # (if msg = WM_KEYDOWN then [Call ovrHmd_RecenterPose, Call ovrHmd_DismissHSWDisplay]
        else [])
     @ [TranslateMessage msg, DispatchMessage msg]"

fun pump_messages :: "bool \<Rightarrow> UINT list \<Rightarrow> bool \<times> event list" where
  "pump_messages keepRunning [] = (keepRunning, [PeekMessage None])"
| "pump_messages keepRunning (msg # queue) =
     (case pump_messages (if msg = WM_QUIT then False else keepRunning) queue of
        (keepRunning', evs) \<Rightarrow> (keepRunning', message_events msg @ evs))"

text \<open>Lines 419 to 425: the Direct3D viewport of an eye.\<close>

definition viewport :: "ovrRecti \<Rightarrow> D3D11_VIEWPORT" where
  "viewport r =
     \<lparr>TopLeftX = to_float (Pos_x (Pos r)),
      TopLeftY = to_float (Pos_y (Pos r)),
      vp_Width = to_float (Size_w (Size r)),
      vp_Height = to_float (Size_h (Size r)),
      MinDepth = 0.0,
      MaxDepth = 1.0\<rparr>"

text \<open>Lines 432 to 449: projection, world pose, view and the matrix sent to the shader.\<close>

text \<open>
  \<^verbatim>\<open>ovrMatrix4f_Projection(..., 0.01f, 10000.0f, true)\<close>: the float nearest to 0.01 is
  \<open>10737418 / 2 ^ 30\<close>, and 10000 is a float.
\<close>

definition projection :: "platform \<Rightarrow> ovrFovPort \<Rightarrow> Matrix4f" where
  "projection p fov = Matrix4f_Projection p fov (10737418 / 2 ^ 30) 10000 True"

definition quatBodyRotation :: "platform \<Rightarrow> Quatf" where
  "quatBodyRotation p = Quatf_axis_angle p UpVector BodyYaw"

definition worldPose :: "platform \<Rightarrow> Posef \<Rightarrow> Posef" where
  "worldPose p currentEyePose =
     \<lparr>Rotation = Quatf_times p (quatBodyRotation p) (Rotation currentEyePose),
      Translation =
        Vector3f_plus p BodyPosition
          (Quatf_Rotate p (quatBodyRotation p) (Translation currentEyePose))\<rparr>"

definition view :: "platform \<Rightarrow> Posef \<Rightarrow> Matrix4f" where
  "view p wp =
     (let up = Quatf_Rotate p (Rotation wp) UpVector;
          forward = Quatf_Rotate p (Rotation wp) ForwardVector
      in Matrix4f_LookAtRH p (Translation wp) (Vector3f_plus p (Translation wp) forward) up)"

definition mvp :: "platform \<Rightarrow> ovrFovPort \<Rightarrow> Posef \<Rightarrow> Matrix4f" where
  "mvp p fov currentEyePose =
     Matrix4f_times p (projection p fov) (view p (worldPose p currentEyePose))"

definition transposedMvp :: "platform \<Rightarrow> ovrFovPort \<Rightarrow> Posef \<Rightarrow> Matrix4f" where
  "transposedMvp p fov currentEyePose = Matrix4f_Transposed p (mvp p fov currentEyePose)"

text \<open>Line 452: \<^verbatim>\<open>sizeof(float) * 16\<close> bytes of \<^verbatim>\<open>float M[4][4]\<close>, that is the rows in order.\<close>

definition floats16 :: "Matrix4f \<Rightarrow> real list" where
  "floats16 m = map (\<lambda>k. M m (k div 4) (k mod 4)) [0..<16]"

text \<open>Lines 416 to 455: the body of the loop over the eyes, for the eye \<open>eye\<close>.\<close>

definition render_eye ::
  "platform \<Rightarrow> ovrEyeRenderDesc array2 \<Rightarrow> ovrRecti array2 \<Rightarrow> Posef array2 \<Rightarrow> ovrEyeType
   \<Rightarrow> event list" where
  "render_eye p descs viewports poses eye =
     [RSSetViewports (viewport (nth2 viewports (eye_index eye))),
      Use Map_WRITE_DISCARD d3dConstantBuffer,
      memcpy (floats16 (transposedMvp p (Fov (nth2 descs (eye_index eye)))
                                        (nth2 poses (eye_index eye)))),
      Use Unmap d3dConstantBuffer,
      Draw 3 0]"

text \<open>Lines 414 to 456: \<^verbatim>\<open>for (int i = 0; i < 2; i++)\<close>.\<close>

definition eye_loop :: "platform \<Rightarrow> ovrHmdDesc \<Rightarrow> Posef array2 \<Rightarrow> event list" where
  "eye_loop p vrHmd poses =
     concat (map (\<lambda>i. render_eye p (vrEyeRenderDesc p vrHmd)
                         (vrEyeRenderViewport (renderTargetSize p vrHmd)) poses
                         (nth2 (EyeRenderOrder vrHmd) i))
                 [0, 1])"

text \<open>Lines 400 to 466: the rendering part of the \<open>n\<close>-th iteration.\<close>

definition vrEyeRenderPose :: "platform \<Rightarrow> ovrHmdDesc \<Rightarrow> nat \<Rightarrow> Posef array2" where
  "vrEyeRenderPose p vrHmd n = hmd_GetEyePoses p n (vrHmdToEyeViewOffset p vrHmd)"

definition frame :: "int32 \<Rightarrow> platform \<Rightarrow> ovrHmdDesc \<Rightarrow> nat \<Rightarrow> event list" where
  "frame msc p vrHmd n =
     [ovrHmd_BeginFrame 0,
      ovrHmd_GetEyePoses 0,
      Use ClearRenderTargetView d3dEyeTextureRenderTargetView,
      Use ClearDepthStencilView d3dDepthStencilView,
      OMSetRenderTargets d3dEyeTextureRenderTargetView d3dDepthStencilView]
     @ eye_loop p vrHmd (vrEyeRenderPose p vrHmd n)
     @ (if multisampling msc
        then [ResolveSubresource (intermediary_ptr msc d3dIntermediaryTexture) d3dEyeTexture]
        else [])
     @ [ovrHmd_EndFrame (vrEyeRenderPose p vrHmd n)
          (vrEyeTexture msc (renderTargetSize p vrHmd))]"

text \<open>
  Lines 380 to 467: \<^verbatim>\<open>while (keepRunning)\<close>. The loop ends only when a \<^verbatim>\<open>WM_QUIT\<close> has
  been taken out of the queue, so it is a partial function: \<open>None\<close> when it runs
  forever, and the events up to its end otherwise. \<open>n\<close> counts the iterations and \<open>tr\<close>
  holds the events so far.
\<close>

partial_function (option) frame_loop ::
  "int32 \<Rightarrow> platform \<Rightarrow> ovrHmdDesc \<Rightarrow> bool \<Rightarrow> nat \<Rightarrow> event list \<Rightarrow> event list option" where
  "frame_loop msc p vrHmd keepRunning n tr =
     (if keepRunning
      then (case pump_messages keepRunning (message_queue p n) of
              (keepRunning', evs) \<Rightarrow>
                frame_loop msc p vrHmd keepRunning' (Suc n) (tr @ evs @ frame msc p vrHmd n))
      else Some tr)"

declare frame_loop.simps [code]

section \<open>WinMain: cleanup and the whole program\<close>

text \<open>Lines 473 to 493.\<close>

definition Release_unless_nullptr :: "resource option \<Rightarrow> event list" where
  "Release_unless_nullptr ptr = (case ptr of None \<Rightarrow> [] | Some r \<Rightarrow> [Release r])"

definition cleanup :: "int32 \<Rightarrow> event list" where
  "cleanup msc =
     DestroyScene
     @ Release_unless_nullptr (intermediary_ptr msc d3dIntermediaryTextureShaderResourceView)
     @ Release_unless_nullptr (intermediary_ptr msc d3dIntermediaryTextureRenderTargetView)
     @ Release_unless_nullptr (intermediary_ptr msc d3dIntermediaryTexture)
     @ [Release d3dDepthStencilView,
        Release d3dDepthStencilTexture,
        Release d3dEyeTextureRenderTargetView,
        Release d3dEyeTextureShaderResourceView,
        Release d3dEyeTexture,
        Release d3dBackBufferRenderTargetView,
        Release d3dSwapChain,
        Release d3dContext,
        Release d3dDevice,
        Call ovrHmd_Destroy,
        Call ovr_Shutdown]"

text \<open>
  \<^verbatim>\<open>WinMain\<close>: the events of the run and the status returned, or \<open>None\<close> when the loop
  never ends.
\<close>

definition WinMain :: "int32 \<Rightarrow> platform \<Rightarrow> (event list \<times> int) option" where
  "WinMain msc p =
     (case hmd_Create p of
        None \<Rightarrow> Some (startup @ no_hmd, EXIT_FAILURE)
      | Some vrHmd \<Rightarrow>
          (case frame_loop msc p vrHmd True 0 (startup @ initialization msc p vrHmd) of
             None \<Rightarrow> None
           | Some tr \<Rightarrow> Some (tr @ cleanup msc, EXIT_SUCCESS)))"

section \<open>Reading a run\<close>

text \<open>The events of the \<open>n\<close>-th iteration of the loop, and of the first \<open>k\<close> iterations.\<close>

definition iteration :: "int32 \<Rightarrow> platform \<Rightarrow> ovrHmdDesc \<Rightarrow> nat \<Rightarrow> event list" where
  "iteration msc p vrHmd n =
     snd (pump_messages True (message_queue p n)) @ frame msc p vrHmd n"

definition iterations :: "int32 \<Rightarrow> platform \<Rightarrow> ovrHmdDesc \<Rightarrow> nat \<Rightarrow> event list" where
  "iterations msc p vrHmd k = concat (map (iteration msc p vrHmd) [0..<k])"

text \<open>The objects an event creates, in the order of its parameters, and those it releases.\<close>

fun acquired :: "event \<Rightarrow> resource list" where
  "acquired (D3D11CreateDeviceAndSwapChain w h c r1 r2 r3) = [r1, r2, r3]"
| "acquired (Create c src r) = [r]"
| "acquired (CreateTexture2D d r) = [r]"
| "acquired e = []"

fun released :: "event \<Rightarrow> resource list" where
  "released (Release r) = [r]"
| "released e = []"

definition acquisition_order :: "event list \<Rightarrow> resource list" where
  "acquisition_order tr = concat (map acquired tr)"

definition release_order :: "event list \<Rightarrow> resource list" where
  "release_order tr = concat (map released tr)"

text \<open>The objects created in a list of events and not released in it, in order of creation.\<close>

definition held :: "event list \<Rightarrow> resource list" where
  "held tr = filter (\<lambda>r. r \<notin> set (release_order tr)) (acquisition_order tr)"

fun is_BeginFrame :: "event \<Rightarrow> bool" where
  "is_BeginFrame (ovrHmd_BeginFrame n) = True"
| "is_BeginFrame e = False"

fun is_EndFrame :: "event \<Rightarrow> bool" where
  "is_EndFrame (ovrHmd_EndFrame poses textures) = True"
| "is_EndFrame e = False"

fun is_Draw :: "event \<Rightarrow> bool" where
  "is_Draw (Draw n start) = True"
| "is_Draw e = False"

fun is_ResolveSubresource :: "event \<Rightarrow> bool" where
  "is_ResolveSubresource (ResolveSubresource dst src) = True"
| "is_ResolveSubresource e = False"

fun is_RSSetViewports :: "event \<Rightarrow> bool" where
  "is_RSSetViewports (RSSetViewports vp) = True"
| "is_RSSetViewports e = False"

fun is_memcpy :: "event \<Rightarrow> bool" where
  "is_memcpy (memcpy floats) = True"
| "is_memcpy e = False"

fun is_GetFovTextureSize :: "event \<Rightarrow> bool" where
  "is_GetFovTextureSize (ovrHmd_GetFovTextureSize eye fov ppdp) = True"
| "is_GetFovTextureSize e = False"

section \<open>Failing calls\<close>

text \<open>
  Every pointer variable of the program starts as \<^verbatim>\<open>nullptr\<close> (lines 114 to 138, 225,
  226, 255, 273, 534 to 542), and a call that fails to create its object leaves it so.
  The program tests none of them, but for the three intermediary pointers before their
  release (lines 474 to 482), and goes on to make its calls through them.
  \<open>calls_through\<close> gives, for a call, the pointers through which the source makes it: the
  object whose method is called, and the shader blob whose getters are called in the
  arguments (lines 553, 555 and 560). An object passed as an argument is not called
  through.
\<close>

fun calls_through :: "event \<Rightarrow> resource list" where
  "calls_through (Create GetBuffer src r) = [d3dSwapChain]"
| "calls_through (Create D3DCompile src r) = []"
| "calls_through (Create CreateVertexShader src r) = [d3dBlobVertexShader, d3dDevice]"
| "calls_through (Create CreatePixelShader src r) = [d3dBlobPixelShader, d3dDevice]"
| "calls_through (Create CreateInputLayout src r) = [d3dBlobVertexShader, d3dDevice]"
| "calls_through (Create CreateRenderTargetView src r) = [d3dDevice]"
| "calls_through (Create CreateDepthStencilView src r) = [d3dDevice]"
| "calls_through (Create CreateShaderResourceView src r) = [d3dDevice]"
| "calls_through (Create CreateBuffer src r) = [d3dDevice]"
| "calls_through (CreateTexture2D d r) = [d3dDevice]"
| "calls_through (Use m r) = [d3dContext]"
| "calls_through (OMSetRenderTargets rtv dsv) = [d3dContext]"
| "calls_through (RSSetViewports vp) = [d3dContext]"
| "calls_through (Draw n start) = [d3dContext]"
| "calls_through (ResolveSubresource dst src) = [d3dContext]"
| "calls_through (Release r) = [r]"
| "calls_through e = []"

text \<open>
  The pointers tested against \<^verbatim>\<open>nullptr\<close> before the only call made through them, their
  release in the cleanup.
\<close>

definition null_tested :: "resource \<Rightarrow> bool" where
  "null_tested r =
     (r = d3dIntermediaryTextureShaderResourceView
      \<or> r = d3dIntermediaryTextureRenderTargetView
      \<or> r = d3dIntermediaryTexture)"

text \<open>
  \<open>fails r\<close> says that the call creating \<open>r\<close> fails. A call is then made through a null
  pointer when one of its pointers has not been created and is not tested first.
\<close>

definition null_call :: "(resource \<Rightarrow> bool) \<Rightarrow> event \<Rightarrow> bool" where
  "null_call fails e = list_ex (\<lambda>r. fails r \<and> \<not> null_tested r) (calls_through e)"



section \<open>An example platform\<close>

text \<open>
  An HMD with mirrored fields of view that wants the right eye rendered first, and a
  platform around it with a given message queue. The mathematics of the example is the
  usual quaternion and matrix algebra over the reals, kept rational: the quaternion of
  an axis and an angle is taken to first order and the look-at matrix is not normalized,
  where LibOVR takes a sine, a cosine and a square root. The properties below hold for
  any mathematics.
\<close>

definition example_hmd :: ovrHmdDesc where
  "example_hmd =
     \<lparr>Resolution = \<lparr>Size_w = 1920, Size_h = 1080\<rparr>,
      DefaultEyeFov =
        Array2 \<lparr>UpTan = 1.33, DownTan = 1.33, LeftTan = 1.06, RightTan = 1.09\<rparr>
               \<lparr>UpTan = 1.33, DownTan = 1.33, LeftTan = 1.09, RightTan = 1.06\<rparr>,
      EyeRenderOrder = Array2 ovrEye_Right ovrEye_Left\<rparr>"

definition rows :: "real list list \<Rightarrow> Matrix4f" where
  "rows rs = \<lparr>M = (\<lambda>i j. rs ! i ! j)\<rparr>"

definition example_Projection :: "ovrFovPort \<Rightarrow> real \<Rightarrow> real \<Rightarrow> bool \<Rightarrow> Matrix4f" where
  "example_Projection fov znear zfar rightHanded =
     (let handedness = (if rightHanded then -1 else 1);
          sx = 2 / (LeftTan fov + RightTan fov);
          ox = (LeftTan fov - RightTan fov) / (LeftTan fov + RightTan fov);
          sy = 2 / (UpTan fov + DownTan fov);
          oy = (UpTan fov - DownTan fov) / (UpTan fov + DownTan fov)
      in rows [[sx, 0, handedness * ox, 0],
               [0, sy, - handedness * oy, 0],
               [0, 0, - handedness * zfar / (znear - zfar), zfar * znear / (znear - zfar)],
               [0, 0, handedness, 0]])"

definition example_axis_angle :: "Vector3f \<Rightarrow> real \<Rightarrow> Quatf" where
  "example_axis_angle axis angle =
     \<lparr>qx = vx axis * (angle / 2), qy = vy axis * (angle / 2), qz = vz axis * (angle / 2),
      qw = 1\<rparr>"

definition example_times :: "Quatf \<Rightarrow> Quatf \<Rightarrow> Quatf" where
  "example_times a b =
     \<lparr>qx = qw a * qx b + qx a * qw b + qy a * qz b - qz a * qy b,
      qy = qw a * qy b - qx a * qz b + qy a * qw b + qz a * qx b,
      qz = qw a * qz b + qx a * qy b - qy a * qx b + qz a * qw b,
      qw = qw a * qw b - qx a * qx b - qy a * qy b - qz a * qz b\<rparr>"

definition example_Rotate :: "Quatf \<Rightarrow> Vector3f \<Rightarrow> Vector3f" where
  "example_Rotate q v =
     (let r = example_times (example_times q \<lparr>qx = vx v, qy = vy v, qz = vz v, qw = 0\<rparr>)
                \<lparr>qx = - qx q, qy = - qy q, qz = - qz q, qw = qw q\<rparr>
      in \<lparr>vx = qx r, vy = qy r, vz = qz r\<rparr>)"

definition example_plus :: "Vector3f \<Rightarrow> Vector3f \<Rightarrow> Vector3f" where
  "example_plus a b = \<lparr>vx = vx a + vx b, vy = vy a + vy b, vz = vz a + vz b\<rparr>"

definition cross :: "Vector3f \<Rightarrow> Vector3f \<Rightarrow> Vector3f" where
  "cross a b =
     \<lparr>vx = vy a * vz b - vz a * vy b,
      vy = vz a * vx b - vx a * vz b,
      vz = vx a * vy b - vy a * vx b\<rparr>"

definition dot :: "Vector3f \<Rightarrow> Vector3f \<Rightarrow> real" where
  "dot a b = vx a * vx b + vy a * vy b + vz a * vz b"

definition example_LookAtRH :: "Vector3f \<Rightarrow> Vector3f \<Rightarrow> Vector3f \<Rightarrow> Matrix4f" where
  "example_LookAtRH eye target up =
     (let z = \<lparr>vx = vx eye - vx target, vy = vy eye - vy target, vz = vz eye - vz target\<rparr>;
          x = cross up z;
          y = cross z x
      in rows [[vx x, vy x, vz x, - dot x eye],
               [vx y, vy y, vz y, - dot y eye],
               [vx z, vy z, vz z, - dot z eye],
               [0, 0, 0, 1]])"

definition example_Matrix4f_times :: "Matrix4f \<Rightarrow> Matrix4f \<Rightarrow> Matrix4f" where
  "example_Matrix4f_times a b =
     \<lparr>M = (\<lambda>i j. M a i 0 * M b 0 j + M a i 1 * M b 1 j + M a i 2 * M b 2 j
                   + M a i 3 * M b 3 j)\<rparr>"

definition example_platform :: "ovrHmdDesc option \<Rightarrow> (nat \<Rightarrow> UINT list) \<Rightarrow> platform" where
  "example_platform created queue =
     \<lparr>hmd_Create = created,
      hmd_GetFovTextureSize = (\<lambda>eye fov ppdp. \<lparr>Size_w = 1182, Size_h = 1461\<rparr>),
      hmd_ConfigureRendering =
        (\<lambda>fovs. Array2 \<lparr>Fov = nth2 fovs 0, HmdToEyeViewOffset = \<lparr>vx = 1 / 32, vy = 0, vz = 0\<rparr>\<rparr>
                        \<lparr>Fov = nth2 fovs 1, HmdToEyeViewOffset = \<lparr>vx = - 1 / 32, vy = 0, vz = 0\<rparr>\<rparr>),
      hmd_GetEyePoses =
        (\<lambda>n offsets. Array2 \<lparr>Rotation = \<lparr>qx = 0, qy = 0, qz = 0, qw = 1\<rparr>,
                               Translation = nth2 offsets 0\<rparr>
                             \<lparr>Rotation = \<lparr>qx = 0, qy = 0, qz = 0, qw = 1\<rparr>,
                               Translation = nth2 offsets 1\<rparr>),
      message_queue = queue,
      Matrix4f_Projection = example_Projection,
      Quatf_axis_angle = example_axis_angle,
      Quatf_times = example_times,
      Quatf_Rotate = example_Rotate,
      Vector3f_plus = example_plus,
      Matrix4f_LookAtRH = example_LookAtRH,
      Matrix4f_times = example_Matrix4f_times,
      Matrix4f_Transposed = (\<lambda>m. \<lparr>M = (\<lambda>i j. M m j i)\<rparr>)\<rparr>"

text \<open>Message queues: a key press and the quit message in iteration \<open>k\<close>; nothing ever.\<close>

definition quit_in :: "nat \<Rightarrow> nat \<Rightarrow> UINT list" where
  "quit_in k n = (if n = k then [WM_KEYDOWN, WM_QUIT] else [])"

definition never_quit :: "nat \<Rightarrow> UINT list" where
  "never_quit n = []"




section \<open>Arithmetic on \<^verbatim>\<open>int\<close>\<close>

lemma sint_int32_bounds:
  fixes w :: int32
  shows "- (2 ^ 31) \<le> sint w" "sint w < 2 ^ 31"
  using sint_ge [of w] sint_lt [of w] by simp_all

lemma sint_int32_of_int:
  assumes "- (2 ^ 31) \<le> k" "k < 2 ^ 31"
  shows "sint (word_of_int k :: int32) = k"
  using assms by (simp add: sint_sbintrunc' signed_take_bit_int_eq_self)







lemma sdiv_2_nonneg: "0 \<le> (k::int) \<Longrightarrow> k sdiv 2 = k div 2"
  by (simp add: signed_divide_int_def sgn_if)

lemma int32_div_2_nonneg:
  fixes w :: int32
  assumes "0 \<le> sint w"
  shows "sint (int32_div w 2) = sint w div 2"
proof -
  have "sint w div 2 < 2 ^ 31" "- (2 ^ 31) \<le> sint w div 2"
    using assms sint_int32_bounds [of w] by linarith+
  then show ?thesis
    using assms by (simp add: int32_div_def sdiv_2_nonneg sint_int32_of_int)
qed

lemma int32_max: "sint (w::int32) = 2147483647 \<Longrightarrow> w = 2147483647"
  by (rule signed_word_eqI) simp

lemma int32_div_max: "int32_div (2147483647 + 1) 2 \<noteq> int32_div 2147483647 2"
  by (simp add: int32_div_def signed_divide_int_def)

lemma sint_succ:
  fixes w :: int32
  assumes "sint w \<noteq> 2147483647"
  shows "sint (w + 1) = sint w + 1"
proof -
  have "sint w + 1 < 2 ^ 31" "- (2 ^ 31) \<le> sint w + 1"
    using assms sint_int32_bounds [of w] by simp_all
  then show ?thesis
    by (simp add: sint_word_ariths signed_take_bit_int_eq_self)
qed

lemma int32_div_succ_2:
  fixes w :: int32
  assumes "0 \<le> sint w"
  shows "(int32_div (w + 1) 2 = int32_div w 2) = even (sint w)"
proof (cases "sint w = 2147483647")
  case True
  then have "w = 2147483647" by (rule int32_max)
  with True int32_div_max show ?thesis by simp
next
  case False
  have s: "sint (w + 1) = sint w + 1"
    using False by (rule sint_succ)
  have nn: "0 \<le> sint (w + 1)"
    using assms s by simp
  have "(int32_div (w + 1) 2 = int32_div w 2)
        = (sint (int32_div (w + 1) 2) = sint (int32_div w 2))"
    by (rule word_eq_iff_signed)
  also have "\<dots> = ((sint w + 1) div 2 = sint w div 2)"
    using assms nn s by (simp add: int32_div_2_nonneg)
  also have "\<dots> = even (sint w)"
    by presburger
  finally show ?thesis .
qed

section \<open>The loop\<close>

text \<open>
  The inner loop clears \<^verbatim>\<open>keepRunning\<close> exactly when the queue holds a \<^verbatim>\<open>WM_QUIT\<close>; the
  frame loop returns after the first iteration whose queue holds one, and runs forever
  when none does.
\<close>

lemma pump_messages_keepRunning:
  "fst (pump_messages keepRunning queue) = (keepRunning \<and> WM_QUIT \<notin> set queue)"
  by (induction queue arbitrary: keepRunning) (simp_all add: case_prod_unfold)

lemma pump_messages_events:
  "snd (pump_messages keepRunning queue) = concat (map message_events queue) @ [PeekMessage None]"
  by (induction queue arbitrary: keepRunning) (simp_all add: case_prod_unfold)

lemma frame_loop_stopped: "frame_loop msc p vrHmd False n tr = Some tr"
  by (simp add: frame_loop.simps)

lemma frame_loop_quit:
  assumes "WM_QUIT \<in> set (message_queue p n)"
  shows "frame_loop msc p vrHmd True n tr = Some (tr @ iteration msc p vrHmd n)"
proof -
  obtain kr evs where pm: "pump_messages True (message_queue p n) = (kr, evs)"
    by (cases "pump_messages True (message_queue p n)")
  from pm assms have "kr = False"
    using pump_messages_keepRunning [of True "message_queue p n"] by simp
  with pm show ?thesis
    by (subst frame_loop.simps) (simp add: iteration_def frame_loop_stopped)
qed

lemma frame_loop_continue:
  assumes "WM_QUIT \<notin> set (message_queue p n)"
  shows "frame_loop msc p vrHmd True n tr =
         frame_loop msc p vrHmd True (Suc n) (tr @ iteration msc p vrHmd n)"
proof -
  obtain kr evs where pm: "pump_messages True (message_queue p n) = (kr, evs)"
    by (cases "pump_messages True (message_queue p n)")
  from pm assms have "kr = True"
    using pump_messages_keepRunning [of True "message_queue p n"] by simp
  with pm show ?thesis
    by (subst frame_loop.simps) (simp add: iteration_def)
qed

lemma frame_loop_returns_from:
  assumes "\<forall>i<k. WM_QUIT \<notin> set (message_queue p (n + i))"
    and "WM_QUIT \<in> set (message_queue p (n + k))"
  shows "frame_loop msc p vrHmd True n tr =
         Some (tr @ concat (map (iteration msc p vrHmd) [n..<n + k]) @ iteration msc p vrHmd (n + k))"
  using assms
proof (induction k arbitrary: n tr)
  case 0
  then show ?case by (simp add: frame_loop_quit)
next
  case (Suc k)
  from Suc.prems(1) have nq: "WM_QUIT \<notin> set (message_queue p n)" by force
  have a: "\<forall>i<k. WM_QUIT \<notin> set (message_queue p (Suc n + i))"
    using Suc.prems(1) by auto
  have b: "WM_QUIT \<in> set (message_queue p (Suc n + k))"
    using Suc.prems(2) by simp
  have "[n..<n + Suc k] = n # [Suc n..<Suc n + k]"
    by (simp add: upt_rec)
  then show ?case
    using Suc.IH [OF a b] nq by (simp add: frame_loop_continue)
qed

lemma frame_loop_Some_quit:
  assumes "frame_loop msc p vrHmd keepRunning n tr = Some y"
  shows "keepRunning \<longrightarrow> (\<exists>i\<ge>n. WM_QUIT \<in> set (message_queue p i))"
proof (rule frame_loop.raw_induct
    [where P = "\<lambda>msc p vrHmd keepRunning n tr y.
                  keepRunning \<longrightarrow> (\<exists>i\<ge>n. WM_QUIT \<in> set (message_queue p i))",
     OF _ assms])
  fix f msc p vrHmd keepRunning n tr y
  assume IH: "\<And>msc p vrHmd keepRunning n tr y. f msc p vrHmd keepRunning n tr = Some y \<Longrightarrow>
                keepRunning \<longrightarrow> (\<exists>i\<ge>n. WM_QUIT \<in> set (message_queue p i))"
    and step: "(if keepRunning
                then case pump_messages keepRunning (message_queue p n) of
                       (keepRunning', evs) \<Rightarrow>
                         f msc p vrHmd keepRunning' (Suc n) (tr @ evs @ frame msc p vrHmd n)
                else Some tr) = Some y"
  show "keepRunning \<longrightarrow> (\<exists>i\<ge>n. WM_QUIT \<in> set (message_queue p i))"
  proof
    assume k: keepRunning
    obtain kr evs where pm: "pump_messages True (message_queue p n) = (kr, evs)"
      by (cases "pump_messages True (message_queue p n)")
    show "\<exists>i\<ge>n. WM_QUIT \<in> set (message_queue p i)"
    proof (cases "WM_QUIT \<in> set (message_queue p n)")
      case True
      then show ?thesis by blast
    next
      case False
      with pm have kr: "kr"
        using pump_messages_keepRunning [of True "message_queue p n"] by simp
      from step pm k
      have "f msc p vrHmd kr (Suc n) (tr @ evs @ frame msc p vrHmd n) = Some y"
        by simp
      from IH [OF this] kr obtain i where "i \<ge> Suc n" "WM_QUIT \<in> set (message_queue p i)"
        by blast
      then show ?thesis by (meson Suc_leD)
    qed
  qed
qed

lemma frame_loop_runs_forever:
  assumes "\<forall>i\<ge>n. WM_QUIT \<notin> set (message_queue p i)"
  shows "frame_loop msc p vrHmd True n tr = None"
proof (cases "frame_loop msc p vrHmd True n tr")
  case None
  then show ?thesis .
next
  case (Some y)
  from frame_loop_Some_quit [OF Some] assms show ?thesis by blast
qed

lemma iterations_Suc:
  "iterations msc p vrHmd (Suc k) = iterations msc p vrHmd k @ iteration msc p vrHmd k"
  by (simp add: iterations_def)


lemma WinMain_quit:
  assumes "hmd_Create p = Some vrHmd"
    and "\<forall>i<k. WM_QUIT \<notin> set (message_queue p i)"
    and "WM_QUIT \<in> set (message_queue p k)"
  shows "WinMain msc p =
         Some (startup @ initialization msc p vrHmd @ iterations msc p vrHmd k
               @ iteration msc p vrHmd k @ cleanup msc, EXIT_SUCCESS)"
proof -
  have "frame_loop msc p vrHmd True 0 (startup @ initialization msc p vrHmd) =
        Some ((startup @ initialization msc p vrHmd)
              @ concat (map (iteration msc p vrHmd) [0..<0 + k]) @ iteration msc p vrHmd (0 + k))"
    using assms(2,3) by (intro frame_loop_returns_from) simp_all
  with assms(1) show ?thesis
    by (simp add: WinMain_def iterations_def)
qed

lemma WinMain_never_quit:
  assumes "hmd_Create p = Some vrHmd"
    and "\<forall>n. WM_QUIT \<notin> set (message_queue p n)"
  shows "WinMain msc p = None"
proof -
  have "frame_loop msc p vrHmd True 0 (startup @ initialization msc p vrHmd) = None"
    using assms(2) by (intro frame_loop_runs_forever) simp
  with assms(1) show ?thesis
    by (simp add: WinMain_def)
qed

lemma first_quit:
  assumes "\<exists>n. WM_QUIT \<in> set (message_queue p n)"
  obtains k where "\<forall>i<k. WM_QUIT \<notin> set (message_queue p i)"
    and "WM_QUIT \<in> set (message_queue p k)"
proof -
  define k where "k = (LEAST n. WM_QUIT \<in> set (message_queue p n))"
  have "WM_QUIT \<in> set (message_queue p k)"
    unfolding k_def using assms by (rule LeastI_ex)
  moreover have "\<forall>i<k. WM_QUIT \<notin> set (message_queue p i)"
    unfolding k_def using not_less_Least by blast
  ultimately show ?thesis using that by blast
qed

lemma WinMain_Some:
  assumes "WinMain msc p = Some (tr, status)"
  shows "(hmd_Create p = None \<and> tr = startup @ no_hmd \<and> status = EXIT_FAILURE)
       \<or> (\<exists>vrHmd k. hmd_Create p = Some vrHmd
            \<and> (\<forall>i<k. WM_QUIT \<notin> set (message_queue p i))
            \<and> WM_QUIT \<in> set (message_queue p k)
            \<and> tr = startup @ initialization msc p vrHmd @ iterations msc p vrHmd k
                    @ iteration msc p vrHmd k @ cleanup msc
            \<and> status = EXIT_SUCCESS)"
proof (cases "hmd_Create p")
  case None
  with assms show ?thesis by (simp add: WinMain_def)
next
  case (Some vrHmd)
  have "\<exists>n. WM_QUIT \<in> set (message_queue p n)"
  proof (rule ccontr)
    assume "\<not> ?thesis"
    then have "WinMain msc p = None"
      using Some by (intro WinMain_never_quit) simp_all
    with assms show False by simp
  qed
  then obtain k where k: "\<forall>i<k. WM_QUIT \<notin> set (message_queue p i)"
    "WM_QUIT \<in> set (message_queue p k)"
    by (rule first_quit)
  from WinMain_quit [OF Some k, of msc] assms
  have "tr = startup @ initialization msc p vrHmd @ iterations msc p vrHmd k
             @ iteration msc p vrHmd k @ cleanup msc \<and> status = EXIT_SUCCESS"
    by simp
  with Some k show ?thesis by blast
qed


lemma example_platform_simps:
  "hmd_Create (example_platform created queue) = created"
  "message_queue (example_platform created queue) = queue"
  by (simp_all add: example_platform_def)

section \<open>Properties of the initialization\<close>



text \<open>
  C3, as the claim states it: the viewport of eye 1 starts at half the width, \<open>w / 2\<close>.
  It does not when the width is odd: for a target 2365 wide the program puts it at 1183,
  and \<open>2365 / 2\<close> is 1182.
\<close>

theorem eye_viewports_odd_width:
  "Pos_x (Pos (nth2 (vrEyeRenderViewport \<lparr>Size_w = 2365, Size_h = 1461\<rparr>) 1))
     \<noteq> int32_div (Size_w \<lparr>Size_w = 2365, Size_h = 1461\<rparr>) 2"
  by (simp add: vrEyeRenderViewport_def Let_def int32_div_def signed_divide_int_def)

text \<open>
  C3, amended: for every size of the render target, the viewport of eye 0 is at \<open>(0, 0)\<close>,
  the viewport of eye 1 is at \<open>x = (w + 1) / 2\<close>, \<open>y = 0\<close>, and both have the size
  \<open>(w / 2, h)\<close>, in the arithmetic of \<^verbatim>\<open>int\<close> with its truncating division. For a width
  that is not negative, \<open>(w + 1) / 2\<close> is the half width \<open>w / 2\<close> exactly when \<open>w\<close> is even.
\<close>

theorem eye_viewports:
  "nth2 (vrEyeRenderViewport rts) 0
     = \<lparr>Pos = \<lparr>Pos_x = 0, Pos_y = 0\<rparr>,
        Size = \<lparr>Size_w = int32_div (Size_w rts) 2, Size_h = Size_h rts\<rparr>\<rparr>
   \<and> nth2 (vrEyeRenderViewport rts) 1
     = \<lparr>Pos = \<lparr>Pos_x = int32_div (Size_w rts + 1) 2, Pos_y = 0\<rparr>,
        Size = \<lparr>Size_w = int32_div (Size_w rts) 2, Size_h = Size_h rts\<rparr>\<rparr>
   \<and> (0 \<le> sint (Size_w rts) \<longrightarrow>
        (int32_div (Size_w rts + 1) 2 = int32_div (Size_w rts) 2) = even (sint (Size_w rts)))"
  by (simp add: vrEyeRenderViewport_def Let_def int32_div_succ_2)

theorem eye_viewports_witness:
  "0 \<le> sint (Size_w \<lparr>Size_w = 2364, Size_h = 1461\<rparr>)
   \<and> nth2 (vrEyeRenderViewport \<lparr>Size_w = 2364, Size_h = 1461\<rparr>) 1
     = \<lparr>Pos = \<lparr>Pos_x = 1182, Pos_y = 0\<rparr>, Size = \<lparr>Size_w = 1182, Size_h = 1461\<rparr>\<rparr>
   \<and> int32_div (2364 + 1) 2 = int32_div 2364 2"
  using eye_viewports [of "\<lparr>Size_w = 2364, Size_h = 1461\<rparr>"]
  by (simp add: int32_div_def signed_divide_int_def)

text \<open>
  C6. Each of the two calls of \<^verbatim>\<open>ovrHmd_GetFovTextureSize\<close> should be made with the
  identifier and the default field of view of its own eye. The program passes
  \<^verbatim>\<open>DefaultEyeFov[0]\<close>, the field of view of the left eye, in both calls: on an HMD whose
  two fields of view differ, the query for the right eye is made with the left eye's,
  while lines 187 and 188 take \<^verbatim>\<open>DefaultEyeFov[1]\<close> for the right eye.
\<close>

theorem right_eye_query_uses_left_fov:
  "filter is_GetFovTextureSize
     (initialization MultisampleCount (example_platform (Some example_hmd) never_quit) example_hmd)
     = [ovrHmd_GetFovTextureSize ovrEye_Left
          \<lparr>UpTan = 1.33, DownTan = 1.33, LeftTan = 1.06, RightTan = 1.09\<rparr> 1,
        ovrHmd_GetFovTextureSize ovrEye_Right
          \<lparr>UpTan = 1.33, DownTan = 1.33, LeftTan = 1.06, RightTan = 1.09\<rparr> 1]
   \<and> nth2 (DefaultEyeFov example_hmd) 1
     = \<lparr>UpTan = 1.33, DownTan = 1.33, LeftTan = 1.09, RightTan = 1.06\<rparr>
   \<and> nth2 (DefaultEyeFov example_hmd) 1 \<noteq> nth2 (DefaultEyeFov example_hmd) 0"
  by (simp add: initialization_def SetupScene_def example_hmd_def PixelsPerDisplayPixel_def)

text \<open>
  C10. The descriptor of the right eye handed to LibOVR is the descriptor of the left eye
  with only its render viewport replaced by the viewport of the right eye: API, texture
  size, texture pointer and shader resource view pointer are the same. It is this pair
  that \<^verbatim>\<open>ovrHmd_EndFrame\<close> receives, as the last call of every frame.
\<close>

theorem eye_texture_copy:
  "nth2 (vrEyeTexture msc rts) 1 =
     (nth2 (vrEyeTexture msc rts) 0)\<lparr>Header_RenderViewport := nth2 (vrEyeRenderViewport rts) 1\<rparr>
   \<and> Header_RenderViewport (nth2 (vrEyeTexture msc rts) 0) = nth2 (vrEyeRenderViewport rts) 0
   \<and> Header_API (nth2 (vrEyeTexture msc rts) 1) = Header_API (nth2 (vrEyeTexture msc rts) 0)
   \<and> Header_TextureSize (nth2 (vrEyeTexture msc rts) 1)
       = Header_TextureSize (nth2 (vrEyeTexture msc rts) 0)
   \<and> pTexture (nth2 (vrEyeTexture msc rts) 1) = pTexture (nth2 (vrEyeTexture msc rts) 0)
   \<and> pSRView (nth2 (vrEyeTexture msc rts) 1) = pSRView (nth2 (vrEyeTexture msc rts) 0)
   \<and> last (frame msc p vrHmd n)
       = ovrHmd_EndFrame (vrEyeRenderPose p vrHmd n) (vrEyeTexture msc (renderTargetSize p vrHmd))"
  by (simp add: vrEyeTexture_def Let_def frame_def)

section \<open>Properties of a frame\<close>

lemma multisampling_iff: "multisampling msc = (1 < sint msc)"
  by (simp add: multisampling_def int32_less_def)

lemma eye_loop_no_resolve: "filter is_ResolveSubresource (eye_loop p vrHmd poses) = []"
  by (simp add: eye_loop_def render_eye_def)

lemma eye_loop_no_EndFrame: "filter is_EndFrame (eye_loop p vrHmd poses) = []"
  by (simp add: eye_loop_def render_eye_def)

lemma length_floats16: "length (floats16 m) = 16"
  by (simp add: floats16_def)

lemma bitlen_small:
  assumes "n < 2 ^ 24"
  shows "nat (bitlen (int n)) \<le> 24"
proof -
  have "floorlog 2 n \<le> 24"
    using assms by (intro floorlog_leI) simp_all
  then show ?thesis by (simp add: bitlen_def)
qed

lemma nearest_float_exact:
  assumes "n < 2 ^ 24"
  shows "nearest_float n = n"
  using bitlen_small [OF assms] by (simp add: nearest_float_def Let_def)

lemma to_float_exact:
  assumes "- (2 ^ 24) < sint a" "sint a < 2 ^ 24"
  shows "to_float a = real_of_int (sint a)"
proof (cases "sint a < 0")
  case True
  with assms have "nat (- sint a) < 2 ^ 24" by (simp add: nat_less_iff)
  then show ?thesis using True by (simp add: to_float_def nearest_float_exact)
next
  case False
  with assms have "nat (sint a) < 2 ^ 24" by (simp add: nat_less_iff)
  then show ?thesis using False by (simp add: to_float_def nearest_float_exact)
qed

lemma to_float_0: "to_float 0 = 0"
  by (simp add: to_float_def nearest_float_def)

lemma viewport_halves:
  fixes w :: int32
  assumes "0 \<le> sint w" "sint w < 2 ^ 24"
  shows "to_float (int32_div w 2) = real_of_int (sint w div 2)"
    and "to_float (int32_div (w + 1) 2) = real_of_int ((sint w + 1) div 2)"
proof -
  have half: "sint (int32_div w 2) = sint w div 2"
    using assms(1) by (rule int32_div_2_nonneg)
  have "sint w \<noteq> 2147483647"
    using assms(2) by simp
  then have succ: "sint (w + 1) = sint w + 1"
    by (rule sint_succ)
  then have "0 \<le> sint (w + 1)"
    using assms(1) by simp
  then have half': "sint (int32_div (w + 1) 2) = (sint w + 1) div 2"
    using int32_div_2_nonneg [of "w + 1"] succ by simp
  have "- (2 ^ 24) < sint w div 2" "sint w div 2 < 2 ^ 24"
    "- (2 ^ 24) < (sint w + 1) div 2" "(sint w + 1) div 2 < 2 ^ 24"
    using assms by simp_all
  then show "to_float (int32_div w 2) = real_of_int (sint w div 2)"
    and "to_float (int32_div (w + 1) 2) = real_of_int ((sint w + 1) div 2)"
    using half half' by (simp_all add: to_float_exact)
qed

lemma float_literals:
  "\<bar>BodyYaw - 0.9\<bar> \<le> 1 / 2 ^ 25"
  "\<bar>10737418 / 2 ^ 30 - (0.01 :: real)\<bar> \<le> 1 / 2 ^ 31"
  by (simp_all add: BodyYaw_def)

lemma example_platform_fields:
  "hmd_GetFovTextureSize (example_platform created queue)
     = (\<lambda>eye fov ppdp. \<lparr>Size_w = 1182, Size_h = 1461\<rparr>)"
  "hmd_ConfigureRendering (example_platform created queue)
     = (\<lambda>fovs. Array2 \<lparr>Fov = nth2 fovs 0, HmdToEyeViewOffset = \<lparr>vx = 1 / 32, vy = 0, vz = 0\<rparr>\<rparr>
                     \<lparr>Fov = nth2 fovs 1, HmdToEyeViewOffset = \<lparr>vx = - 1 / 32, vy = 0, vz = 0\<rparr>\<rparr>)"
  "hmd_GetEyePoses (example_platform created queue)
     = (\<lambda>n offsets. Array2 \<lparr>Rotation = \<lparr>qx = 0, qy = 0, qz = 0, qw = 1\<rparr>,
                             Translation = nth2 offsets 0\<rparr>
                           \<lparr>Rotation = \<lparr>qx = 0, qy = 0, qz = 0, qw = 1\<rparr>,
                             Translation = nth2 offsets 1\<rparr>)"
  "Matrix4f_Projection (example_platform created queue) = example_Projection"
  "Quatf_axis_angle (example_platform created queue) = example_axis_angle"
  "Quatf_times (example_platform created queue) = example_times"
  "Quatf_Rotate (example_platform created queue) = example_Rotate"
  "Vector3f_plus (example_platform created queue) = example_plus"
  "Matrix4f_LookAtRH (example_platform created queue) = example_LookAtRH"
  "Matrix4f_times (example_platform created queue) = example_Matrix4f_times"
  "Matrix4f_Transposed (example_platform created queue) = (\<lambda>m. \<lparr>M = (\<lambda>i j. M m j i)\<rparr>)"
  by (simp_all add: example_platform_def)

text \<open>
  C1. Every frame runs the loop body once for each of the two eyes, in the order of
  \<^verbatim>\<open>EyeRenderOrder\<close>. For the left eye the body uses the first viewport rectangle, the
  field of view of the first eye render descriptor and the first predicted pose, for the
  right eye the second of each: it sets the viewport (at \<open>x = 0\<close> for the left eye and
  at \<open>(w + 1) / 2\<close> for the right one, \<open>w / 2\<close> wide and \<open>h\<close> high, depths 0 to 1), computes
  the projection from the field of view with the planes 0.01 and 10000.0, the world pose
  (rotation: the body yaw quaternion, about the up vector by 0.9, times the tracked
  rotation; translation: the body position \<open>(0.5, 0.5, 0)\<close> plus the tracked translation
  rotated by the body yaw), the right-handed look-at matrix from that pose, the product
  projection times view and its transpose, copies the 16 floats of the transpose into
  the constant buffer and draws 3 vertices. The numbers 0.9 and 0.01 are the floats that
  the program passes, and the sizes of the viewport are converted as
  \<^verbatim>\<open>static_cast<float>\<close> converts them: exactly below \<open>2 ^ 24\<close>, to the nearest float
  with ties to even above. What is sent to the shader in a frame is determined by the
  order of the eyes, the two fields of view, the two poses and LibOVR's mathematics:
  two frames that agree on these send the same floats, whatever the frame, the sample
  count, the message queue and the rest of the platform are.
\<close>

theorem eye_rendering:
  "(case EyeRenderOrder vrHmd of Array2 first second \<Rightarrow>
    case DefaultEyeFov vrHmd of Array2 fov_left fov_right \<Rightarrow>
    case hmd_ConfigureRendering p (Array2 fov_left fov_right) of Array2 desc_left desc_right \<Rightarrow>
    case hmd_GetEyePoses p n
           (Array2 (HmdToEyeViewOffset desc_left) (HmdToEyeViewOffset desc_right)) of
      Array2 pose_left pose_right \<Rightarrow>
    let w = Size_w (renderTargetSize p vrHmd);
        h = Size_h (renderTargetSize p vrHmd);
        sent = (\<lambda>fov pose.
          let body = Quatf_axis_angle p \<lparr>vx = 0, vy = 1, vz = 0\<rparr> (15099494 / 2 ^ 24);
              rotation = Quatf_times p body (Rotation pose);
              translation = Vector3f_plus p \<lparr>vx = 0.5, vy = 0.5, vz = 0\<rparr>
                              (Quatf_Rotate p body (Translation pose));
              look = Matrix4f_LookAtRH p translation
                       (Vector3f_plus p translation
                          (Quatf_Rotate p rotation \<lparr>vx = 0, vy = 0, vz = -1\<rparr>))
                       (Quatf_Rotate p rotation \<lparr>vx = 0, vy = 1, vz = 0\<rparr>);
              proj = Matrix4f_Projection p fov (10737418 / 2 ^ 30) 10000 True;
              transposed = Matrix4f_Transposed p (Matrix4f_times p proj look)
          in map (\<lambda>k. M transposed (k div 4) (k mod 4)) [0..<16]);
        draw = (\<lambda>x fov pose.
          [RSSetViewports
             \<lparr>TopLeftX = x, TopLeftY = 0, vp_Width = to_float (int32_div w 2),
              vp_Height = to_float h, MinDepth = 0, MaxDepth = 1\<rparr>,
           Use Map_WRITE_DISCARD d3dConstantBuffer,
           memcpy (sent fov pose),
           Use Unmap d3dConstantBuffer,
           Draw 3 0]);
        eye_events = (\<lambda>eye. case eye of
            ovrEye_Left \<Rightarrow> draw 0 (Fov desc_left) pose_left
          | ovrEye_Right \<Rightarrow> draw (to_float (int32_div (w + 1) 2)) (Fov desc_right) pose_right)
    in frame msc p vrHmd n =
         [ovrHmd_BeginFrame 0,
          ovrHmd_GetEyePoses 0,
          Use ClearRenderTargetView d3dEyeTextureRenderTargetView,
          Use ClearDepthStencilView d3dDepthStencilView,
          OMSetRenderTargets d3dEyeTextureRenderTargetView d3dDepthStencilView]
         @ eye_events first @ eye_events second
         @ (if 1 < sint msc
            then [ResolveSubresource (Some d3dIntermediaryTexture) d3dEyeTexture] else [])
         @ [ovrHmd_EndFrame (Array2 pose_left pose_right)
              (vrEyeTexture msc (renderTargetSize p vrHmd))]
       \<and> length (sent fov pose) = 16)
   \<and> (- (2 ^ 24) < sint a \<and> sint a < 2 ^ 24 \<longrightarrow> to_float a = real_of_int (sint a))
   \<and> to_float 16777217 = 16777216
   \<and> to_float 16777219 = 16777220
   \<and> (0 \<le> sint b \<and> sint b < 2 ^ 24 \<longrightarrow>
        to_float (int32_div b 2) = real_of_int (sint b div 2)
        \<and> to_float (int32_div (b + 1) 2) = real_of_int ((sint b + 1) div 2))
   \<and> (Matrix4f_Projection p' = Matrix4f_Projection p
        \<and> Quatf_axis_angle p' = Quatf_axis_angle p
        \<and> Quatf_times p' = Quatf_times p
        \<and> Quatf_Rotate p' = Quatf_Rotate p
        \<and> Vector3f_plus p' = Vector3f_plus p
        \<and> Matrix4f_LookAtRH p' = Matrix4f_LookAtRH p
        \<and> Matrix4f_times p' = Matrix4f_times p
        \<and> Matrix4f_Transposed p' = Matrix4f_Transposed p
        \<and> EyeRenderOrder vrHmd' = EyeRenderOrder vrHmd
        \<and> Fov (nth2 (vrEyeRenderDesc p' vrHmd') 0) = Fov (nth2 (vrEyeRenderDesc p vrHmd) 0)
        \<and> Fov (nth2 (vrEyeRenderDesc p' vrHmd') 1) = Fov (nth2 (vrEyeRenderDesc p vrHmd) 1)
        \<and> vrEyeRenderPose p' vrHmd' n' = vrEyeRenderPose p vrHmd n
      \<longrightarrow> filter is_memcpy (frame msc' p' vrHmd' n') = filter is_memcpy (frame msc p vrHmd n))"
proof -
  obtain first second where order: "EyeRenderOrder vrHmd = Array2 first second"
    by (cases "EyeRenderOrder vrHmd")
  obtain fov_left fov_right where fovs: "DefaultEyeFov vrHmd = Array2 fov_left fov_right"
    by (cases "DefaultEyeFov vrHmd")
  obtain desc_left desc_right where
    descs: "hmd_ConfigureRendering p (Array2 fov_left fov_right) = Array2 desc_left desc_right"
    by (cases "hmd_ConfigureRendering p (Array2 fov_left fov_right)")
  obtain pose_left pose_right where
    poses: "hmd_GetEyePoses p n
              (Array2 (HmdToEyeViewOffset desc_left) (HmdToEyeViewOffset desc_right))
            = Array2 pose_left pose_right"
    by (cases "hmd_GetEyePoses p n
                 (Array2 (HmdToEyeViewOffset desc_left) (HmdToEyeViewOffset desc_right))")
  have d: "vrEyeRenderDesc p vrHmd = Array2 desc_left desc_right"
    by (simp add: vrEyeRenderDesc_def vrEyeFov_def fovs descs)
  have ps: "vrEyeRenderPose p vrHmd n = Array2 pose_left pose_right"
    by (simp add: vrEyeRenderPose_def vrHmdToEyeViewOffset_def d poses)
  have rounding: "to_float 16777217 = 16777216" "to_float 16777219 = 16777220"
    by (simp_all add: to_float_def nearest_float_def Let_def compute_bitlen)
  have same: "filter is_memcpy (frame msc' p' vrHmd' n') = filter is_memcpy (frame msc p vrHmd n)"
    if "Matrix4f_Projection p' = Matrix4f_Projection p"
      "Quatf_axis_angle p' = Quatf_axis_angle p"
      "Quatf_times p' = Quatf_times p"
      "Quatf_Rotate p' = Quatf_Rotate p"
      "Vector3f_plus p' = Vector3f_plus p"
      "Matrix4f_LookAtRH p' = Matrix4f_LookAtRH p"
      "Matrix4f_times p' = Matrix4f_times p"
      "Matrix4f_Transposed p' = Matrix4f_Transposed p"
      "EyeRenderOrder vrHmd' = EyeRenderOrder vrHmd"
      "Fov (nth2 (vrEyeRenderDesc p' vrHmd') 0) = Fov (nth2 (vrEyeRenderDesc p vrHmd) 0)"
      "Fov (nth2 (vrEyeRenderDesc p' vrHmd') 1) = Fov (nth2 (vrEyeRenderDesc p vrHmd) 1)"
      "vrEyeRenderPose p' vrHmd' n' = vrEyeRenderPose p vrHmd n"
  proof -
    have "transposedMvp p' fov pose = transposedMvp p fov pose" for fov pose
      using that(1-8)
      by (simp add: transposedMvp_def mvp_def projection_def view_def worldPose_def
          quatBodyRotation_def)
    moreover have "Fov (nth2 (vrEyeRenderDesc p' vrHmd') (eye_index eye))
                   = Fov (nth2 (vrEyeRenderDesc p vrHmd) (eye_index eye))" for eye
      using that(10,11) by (cases eye) simp_all
    ultimately show ?thesis
      using that(9,12) by (simp add: frame_def eye_loop_def render_eye_def)
  qed
  have main: "(case EyeRenderOrder vrHmd of Array2 first second \<Rightarrow>
    case DefaultEyeFov vrHmd of Array2 fov_left fov_right \<Rightarrow>
    case hmd_ConfigureRendering p (Array2 fov_left fov_right) of Array2 desc_left desc_right \<Rightarrow>
    case hmd_GetEyePoses p n
           (Array2 (HmdToEyeViewOffset desc_left) (HmdToEyeViewOffset desc_right)) of
      Array2 pose_left pose_right \<Rightarrow>
    let w = Size_w (renderTargetSize p vrHmd);
        h = Size_h (renderTargetSize p vrHmd);
        sent = (\<lambda>fov pose.
          let body = Quatf_axis_angle p \<lparr>vx = 0, vy = 1, vz = 0\<rparr> (15099494 / 2 ^ 24);
              rotation = Quatf_times p body (Rotation pose);
              translation = Vector3f_plus p \<lparr>vx = 0.5, vy = 0.5, vz = 0\<rparr>
                              (Quatf_Rotate p body (Translation pose));
              look = Matrix4f_LookAtRH p translation
                       (Vector3f_plus p translation
                          (Quatf_Rotate p rotation \<lparr>vx = 0, vy = 0, vz = -1\<rparr>))
                       (Quatf_Rotate p rotation \<lparr>vx = 0, vy = 1, vz = 0\<rparr>);
              proj = Matrix4f_Projection p fov (10737418 / 2 ^ 30) 10000 True;
              transposed = Matrix4f_Transposed p (Matrix4f_times p proj look)
          in map (\<lambda>k. M transposed (k div 4) (k mod 4)) [0..<16]);
        draw = (\<lambda>x fov pose.
          [RSSetViewports
             \<lparr>TopLeftX = x, TopLeftY = 0, vp_Width = to_float (int32_div w 2),
              vp_Height = to_float h, MinDepth = 0, MaxDepth = 1\<rparr>,
           Use Map_WRITE_DISCARD d3dConstantBuffer,
           memcpy (sent fov pose),
           Use Unmap d3dConstantBuffer,
           Draw 3 0]);
        eye_events = (\<lambda>eye. case eye of
            ovrEye_Left \<Rightarrow> draw 0 (Fov desc_left) pose_left
          | ovrEye_Right \<Rightarrow> draw (to_float (int32_div (w + 1) 2)) (Fov desc_right) pose_right)
    in frame msc p vrHmd n =
         [ovrHmd_BeginFrame 0,
          ovrHmd_GetEyePoses 0,
          Use ClearRenderTargetView d3dEyeTextureRenderTargetView,
          Use ClearDepthStencilView d3dDepthStencilView,
          OMSetRenderTargets d3dEyeTextureRenderTargetView d3dDepthStencilView]
         @ eye_events first @ eye_events second
         @ (if 1 < sint msc
            then [ResolveSubresource (Some d3dIntermediaryTexture) d3dEyeTexture] else [])
         @ [ovrHmd_EndFrame (Array2 pose_left pose_right)
              (vrEyeTexture msc (renderTargetSize p vrHmd))]
       \<and> length (sent fov pose) = 16)"
    by (cases first; cases second)
       (simp_all add: order fovs descs poses d ps frame_def eye_loop_def render_eye_def
          viewport_def vrEyeRenderViewport_def transposedMvp_def mvp_def projection_def
          view_def worldPose_def quatBodyRotation_def UpVector_def ForwardVector_def
          BodyPosition_def BodyYaw_def floats16_def Let_def to_float_0
          multisampling_iff intermediary_ptr_def)
  from main rounding same to_float_exact [of a] viewport_halves [of b] show ?thesis
    by blast
qed

theorem eye_rendering_witness:
  "filter is_RSSetViewports
     (frame MultisampleCount (example_platform (Some example_hmd) (quit_in 0)) example_hmd 0)
     = [RSSetViewports
          \<lparr>TopLeftX = 1182, TopLeftY = 0, vp_Width = 1182, vp_Height = 1461,
           MinDepth = 0, MaxDepth = 1\<rparr>,
        RSSetViewports
          \<lparr>TopLeftX = 0, TopLeftY = 0, vp_Width = 1182, vp_Height = 1461,
           MinDepth = 0, MaxDepth = 1\<rparr>]
   \<and> to_float 1461 = 1461
   \<and> filter is_memcpy
       (frame 1 (example_platform (Some example_hmd) never_quit) example_hmd 7)
     = filter is_memcpy
         (frame MultisampleCount (example_platform (Some example_hmd) (quit_in 0)) example_hmd 0)"
proof -
  let ?p = "example_platform (Some example_hmd) (quit_in 0)"
  let ?p' = "example_platform (Some example_hmd) never_quit"
  note inst = eye_rendering [where p = ?p and p' = ?p' and vrHmd = example_hmd
      and vrHmd' = example_hmd and n = 0 and n' = 7 and msc = MultisampleCount and msc' = 1
      and a = 1461 and b = 2364]
  have order: "EyeRenderOrder example_hmd = Array2 ovrEye_Right ovrEye_Left"
    by (simp add: example_hmd_def)
  obtain fov_left fov_right where
    fovs: "DefaultEyeFov example_hmd = Array2 fov_left fov_right"
    by (cases "DefaultEyeFov example_hmd")
  have size: "renderTargetSize ?p example_hmd = \<lparr>Size_w = 2364, Size_h = 1461\<rparr>"
    by (simp add: renderTargetSize_def ovrEyeDimsLeft_def ovrEyeDimsRight_def
        example_platform_fields std_max_def int32_less_def)
  have float_w: "to_float (int32_div 2364 2) = 1182" "to_float (int32_div 2365 2) = 1182"
    using inst by simp_all
  have float_h: "to_float 1461 = 1461"
    using inst by simp
  have a: "filter is_RSSetViewports (frame MultisampleCount ?p example_hmd 0)
     = [RSSetViewports
          \<lparr>TopLeftX = 1182, TopLeftY = 0, vp_Width = 1182, vp_Height = 1461,
           MinDepth = 0, MaxDepth = 1\<rparr>,
        RSSetViewports
          \<lparr>TopLeftX = 0, TopLeftY = 0, vp_Width = 1182, vp_Height = 1461,
           MinDepth = 0, MaxDepth = 1\<rparr>]"
    using inst [THEN conjunct1]
    by (simp add: order fovs example_platform_fields size float_w float_h Let_def)
  have c: "filter is_memcpy (frame 1 ?p' example_hmd 7)
           = filter is_memcpy (frame MultisampleCount ?p example_hmd 0)"
    using inst
    by (simp add: example_platform_fields vrEyeRenderDesc_def vrEyeRenderPose_def
        vrHmdToEyeViewOffset_def)
  from a float_h c show ?thesis by blast
qed

text \<open>
  On the example platform the two eyes are sent different matrices: what is sent does
  depend on the pose.
\<close>

lemma example_eyes_differ:
  "distinct (filter is_memcpy
     (frame MultisampleCount (example_platform (Some example_hmd) (quit_in 0)) example_hmd 0))"
  by (simp add: frame_def eye_loop_def render_eye_def example_hmd_def 
      vrEyeRenderPose_def vrHmdToEyeViewOffset_def vrEyeRenderDesc_def vrEyeFov_def
      transposedMvp_def mvp_def projection_def
          view_def worldPose_def quatBodyRotation_def UpVector_def ForwardVector_def
          BodyPosition_def BodyYaw_def floats16_def Let_def
      example_platform_def multisampling_def MultisampleCount_def int32_less_def
      example_Projection_def example_axis_angle_def example_times_def example_Rotate_def example_plus_def
      cross_def dot_def example_LookAtRH_def example_Matrix4f_times_def rows_def upt_rec)

text \<open>
  C5. A frame resolves the multisampled eye texture into the intermediary texture if and
  only if the sample count exceeds 1, after both eyes are drawn and before the frame ends.
  The texture (and the shader resource view) handed to \<^verbatim>\<open>ovrHmd_EndFrame\<close> for both eyes
  is then the intermediary one, and the eye texture itself when the count does not exceed 1.
\<close>

theorem multisample_resolve:
  "frame msc p vrHmd n =
     [ovrHmd_BeginFrame 0,
      ovrHmd_GetEyePoses 0,
      Use ClearRenderTargetView d3dEyeTextureRenderTargetView,
      Use ClearDepthStencilView d3dDepthStencilView,
      OMSetRenderTargets d3dEyeTextureRenderTargetView d3dDepthStencilView]
     @ eye_loop p vrHmd (vrEyeRenderPose p vrHmd n)
     @ (if 1 < sint msc then [ResolveSubresource (Some d3dIntermediaryTexture) d3dEyeTexture]
        else [])
     @ [ovrHmd_EndFrame (vrEyeRenderPose p vrHmd n) (vrEyeTexture msc (renderTargetSize p vrHmd))]
   \<and> filter is_ResolveSubresource (frame msc p vrHmd n)
     = (if 1 < sint msc then [ResolveSubresource (Some d3dIntermediaryTexture) d3dEyeTexture]
        else [])
   \<and> filter is_EndFrame (frame msc p vrHmd n)
     = [ovrHmd_EndFrame (vrEyeRenderPose p vrHmd n) (vrEyeTexture msc (renderTargetSize p vrHmd))]
   \<and> pTexture (nth2 (vrEyeTexture msc rts) 0)
     = Some (if 1 < sint msc then d3dIntermediaryTexture else d3dEyeTexture)
   \<and> pTexture (nth2 (vrEyeTexture msc rts) 1)
     = Some (if 1 < sint msc then d3dIntermediaryTexture else d3dEyeTexture)
   \<and> pSRView (nth2 (vrEyeTexture msc rts) 0)
     = Some (if 1 < sint msc then d3dIntermediaryTextureShaderResourceView
             else d3dEyeTextureShaderResourceView)
   \<and> pSRView (nth2 (vrEyeTexture msc rts) 1)
     = Some (if 1 < sint msc then d3dIntermediaryTextureShaderResourceView
             else d3dEyeTextureShaderResourceView)"
  by (simp add: frame_def eye_loop_no_resolve eye_loop_no_EndFrame multisampling_iff
      intermediary_ptr_def vrEyeTexture_def Let_def)

section \<open>Properties of a run\<close>

lemma WM_QUIT_not_WM_KEYDOWN: "WM_QUIT \<noteq> WM_KEYDOWN" "WM_KEYDOWN \<noteq> WM_QUIT"
  by (simp_all add: WM_QUIT_def WM_KEYDOWN_def)

lemma count_message_events:
  "count_list (message_events msg) (Call ovrHmd_RecenterPose) = (if msg = WM_KEYDOWN then 1 else 0)"
  "count_list (message_events msg) (Call ovrHmd_DismissHSWDisplay) = (if msg = WM_KEYDOWN then 1 else 0)"
  "count_list (message_events msg) (PeekMessage (Some WM_KEYDOWN)) = (if msg = WM_KEYDOWN then 1 else 0)"
  by (simp_all add: message_events_def)

lemma count_pump_messages:
  "count_list (snd (pump_messages keepRunning queue)) (Call ovrHmd_RecenterPose)
     = count_list queue WM_KEYDOWN"
  "count_list (snd (pump_messages keepRunning queue)) (Call ovrHmd_DismissHSWDisplay)
     = count_list queue WM_KEYDOWN"
  "count_list (snd (pump_messages keepRunning queue)) (PeekMessage (Some WM_KEYDOWN))
     = count_list queue WM_KEYDOWN"
  unfolding pump_messages_events
  by (induction queue) (simp_all add: count_message_events)

lemma count_frame:
  "count_list (frame msc p vrHmd n) (Call ovrHmd_RecenterPose) = 0"
  "count_list (frame msc p vrHmd n) (Call ovrHmd_DismissHSWDisplay) = 0"
  "count_list (frame msc p vrHmd n) (PeekMessage (Some WM_KEYDOWN)) = 0"
  by (simp_all add: frame_def eye_loop_def render_eye_def)

lemma count_iteration:
  "count_list (iteration msc p vrHmd n) (Call ovrHmd_RecenterPose)
     = count_list (message_queue p n) WM_KEYDOWN"
  "count_list (iteration msc p vrHmd n) (Call ovrHmd_DismissHSWDisplay)
     = count_list (message_queue p n) WM_KEYDOWN"
  "count_list (iteration msc p vrHmd n) (PeekMessage (Some WM_KEYDOWN))
     = count_list (message_queue p n) WM_KEYDOWN"
  by (simp_all add: iteration_def count_pump_messages count_frame)

lemma count_iterations_recenter:
  "count_list (iterations msc p vrHmd k) (Call ovrHmd_RecenterPose)
     = count_list (iterations msc p vrHmd k) (PeekMessage (Some WM_KEYDOWN))"
  by (induction k) (simp_all add: iterations_def count_iteration)

lemma count_iterations_dismiss:
  "count_list (iterations msc p vrHmd k) (Call ovrHmd_DismissHSWDisplay)
     = count_list (iterations msc p vrHmd k) (PeekMessage (Some WM_KEYDOWN))"
  by (induction k) (simp_all add: iterations_def count_iteration)

lemma count_outside_loop:
  "count_list startup (Call ovrHmd_RecenterPose) = 0"
  "count_list startup (Call ovrHmd_DismissHSWDisplay) = 0"
  "count_list startup (PeekMessage (Some WM_KEYDOWN)) = 0"
  "count_list no_hmd (Call ovrHmd_RecenterPose) = 0"
  "count_list no_hmd (Call ovrHmd_DismissHSWDisplay) = 0"
  "count_list no_hmd (PeekMessage (Some WM_KEYDOWN)) = 0"
  "count_list (initialization msc p vrHmd) (Call ovrHmd_RecenterPose) = 0"
  "count_list (initialization msc p vrHmd) (Call ovrHmd_DismissHSWDisplay) = 0"
  "count_list (initialization msc p vrHmd) (PeekMessage (Some WM_KEYDOWN)) = 0"
  "count_list (cleanup msc) (Call ovrHmd_RecenterPose) = 0"
  "count_list (cleanup msc) (Call ovrHmd_DismissHSWDisplay) = 0"
  "count_list (cleanup msc) (PeekMessage (Some WM_KEYDOWN)) = 0"
  by (simp_all add: startup_def no_hmd_def initialization_def SetupScene_def cleanup_def
      DestroyScene_def Release_unless_nullptr_def intermediary_ptr_def)

lemma count_run:
  assumes "WinMain msc p = Some (tr, status)"
  shows "count_list tr (Call ovrHmd_RecenterPose) = count_list tr (PeekMessage (Some WM_KEYDOWN))"
    and "count_list tr (Call ovrHmd_DismissHSWDisplay) = count_list tr (PeekMessage (Some WM_KEYDOWN))"
  using WinMain_Some [OF assms]
  by (auto simp add: count_outside_loop count_iterations_recenter count_iterations_dismiss
      count_iteration)

text \<open>
  C8. The body of the inner loop, for one message taken out of the queue, calls
  \<^verbatim>\<open>ovrHmd_RecenterPose\<close> and \<^verbatim>\<open>ovrHmd_DismissHSWDisplay\<close> once each when the message
  is \<^verbatim>\<open>WM_KEYDOWN\<close> and not at all for any other message; draining a queue makes as many
  of each call as the queue holds key-down messages, and in a whole run of the program
  the number of each call is the number of key-down messages taken out of the queue, so
  nothing else triggers them. A \<^verbatim>\<open>WM_QUIT\<close> in the queue clears \<^verbatim>\<open>keepRunning\<close> (nothing
  else does), and with the flag cleared the frame loop ends.
\<close>

theorem key_down_recenters:
  "message_events msg =
     PeekMessage (Some msg)
     # (if msg = WM_KEYDOWN then [Call ovrHmd_RecenterPose, Call ovrHmd_DismissHSWDisplay] else [])
     @ [TranslateMessage msg, DispatchMessage msg]
   \<and> snd (pump_messages keepRunning queue)
     = concat (map message_events queue) @ [PeekMessage None]
   \<and> count_list (snd (pump_messages keepRunning queue)) (Call ovrHmd_RecenterPose)
     = count_list queue WM_KEYDOWN
   \<and> count_list (snd (pump_messages keepRunning queue)) (Call ovrHmd_DismissHSWDisplay)
     = count_list queue WM_KEYDOWN
   \<and> fst (pump_messages keepRunning queue) = (keepRunning \<and> WM_QUIT \<notin> set queue)
   \<and> frame_loop msc p vrHmd False n tr = Some tr
   \<and> (WinMain msc p = Some (run, status) \<longrightarrow>
        count_list run (Call ovrHmd_RecenterPose) = count_list run (PeekMessage (Some WM_KEYDOWN))
        \<and> count_list run (Call ovrHmd_DismissHSWDisplay)
          = count_list run (PeekMessage (Some WM_KEYDOWN)))"
proof (intro conjI impI)
  show "message_events msg =
     PeekMessage (Some msg)
     # (if msg = WM_KEYDOWN then [Call ovrHmd_RecenterPose, Call ovrHmd_DismissHSWDisplay] else [])
     @ [TranslateMessage msg, DispatchMessage msg]"
    by (simp add: message_events_def)
  show "snd (pump_messages keepRunning queue)
     = concat (map message_events queue) @ [PeekMessage None]"
    by (rule pump_messages_events)
  show "count_list (snd (pump_messages keepRunning queue)) (Call ovrHmd_RecenterPose)
     = count_list queue WM_KEYDOWN"
    by (rule count_pump_messages)
  show "count_list (snd (pump_messages keepRunning queue)) (Call ovrHmd_DismissHSWDisplay)
     = count_list queue WM_KEYDOWN"
    by (rule count_pump_messages)
  show "fst (pump_messages keepRunning queue) = (keepRunning \<and> WM_QUIT \<notin> set queue)"
    by (rule pump_messages_keepRunning)
  show "frame_loop msc p vrHmd False n tr = Some tr"
    by (rule frame_loop_stopped)
next
  assume r: "WinMain msc p = Some (run, status)"
  show "count_list run (Call ovrHmd_RecenterPose) = count_list run (PeekMessage (Some WM_KEYDOWN))"
    using r by (rule count_run)
  show "count_list run (Call ovrHmd_DismissHSWDisplay)
          = count_list run (PeekMessage (Some WM_KEYDOWN))"
    using r by (rule count_run)
qed

theorem key_down_recenters_witness:
  "map_option (\<lambda>r. count_list (fst r) (Call ovrHmd_RecenterPose))
     (WinMain MultisampleCount (example_platform (Some example_hmd) (quit_in 0)))
   = Some 1"
proof -
  let ?p = "example_platform (Some example_hmd) (quit_in 0)"
  let ?run = "startup @ initialization MultisampleCount ?p example_hmd
                @ iterations MultisampleCount ?p example_hmd 0
                @ iteration MultisampleCount ?p example_hmd 0 @ cleanup MultisampleCount"
  have run: "WinMain MultisampleCount ?p = Some (?run, EXIT_SUCCESS)"
    by (rule WinMain_quit) (simp_all add: example_platform_simps quit_in_def)
  have "count_list ?run (PeekMessage (Some WM_KEYDOWN)) = 1"
    by (simp add: count_outside_loop count_iteration iterations_def example_platform_simps
        quit_in_def WM_QUIT_not_WM_KEYDOWN)
  with run have "count_list ?run (Call ovrHmd_RecenterPose) = 1"
    using key_down_recenters [where msc = MultisampleCount and p = ?p and run = ?run
        and status = EXIT_SUCCESS]
    by simp
  with run show ?thesis by simp
qed

lemma split_after_prefix:
  assumes "xs @ ys = pre @ q # post" and "q \<notin> set xs"
  shows "\<exists>pre'. pre = xs @ pre' \<and> ys = pre' @ q # post"
  using assms
proof (induction xs arbitrary: pre)
  case Nil
  then show ?case by simp
next
  case (Cons x xs)
  show ?case
  proof (cases pre)
    case Nil
    with Cons.prems show ?thesis by simp
  next
    case (Cons a pre'')
    with Cons.prems Cons.IH [of pre''] show ?thesis by auto
  qed
qed

lemma split_before_suffix:
  assumes "xs @ ys = pre @ q # post" and "q \<notin> set ys"
  shows "\<exists>post'. post = post' @ ys \<and> xs = pre @ q # post'"
proof -
  from assms(1) obtain us where
    "(xs = pre @ us \<and> us @ ys = q # post) \<or> (xs @ us = pre \<and> ys = us @ q # post)"
    by (auto simp add: append_eq_append_conv2)
  then show ?thesis
  proof
    assume a: "xs = pre @ us \<and> us @ ys = q # post"
    show ?thesis
    proof (cases us)
      case Nil
      with a assms(2) show ?thesis by auto
    next
      case (Cons u us')
      with a show ?thesis by auto
    qed
  next
    assume "xs @ us = pre \<and> ys = us @ q # post"
    with assms(2) show ?thesis by auto
  qed
qed

lemma quit_peeked:
  "(PeekMessage (Some WM_QUIT) \<in> set (snd (pump_messages keepRunning queue)))
     = (WM_QUIT \<in> set queue)"
  unfolding pump_messages_events
  by (induction queue) (auto simp add: message_events_def)

lemma frame_no_peek: "PeekMessage m \<notin> set (frame msc p vrHmd n)"
  by (simp add: frame_def eye_loop_def render_eye_def)

lemma outside_loop_no_peek:
  "PeekMessage m \<notin> set startup"
  "PeekMessage m \<notin> set (initialization msc p vrHmd)"
  "PeekMessage m \<notin> set (cleanup msc)"
  by (simp_all add: startup_def initialization_def SetupScene_def cleanup_def
      DestroyScene_def Release_unless_nullptr_def intermediary_ptr_def)

lemma iterations_no_quit:
  assumes "\<forall>i<k. WM_QUIT \<notin> set (message_queue p i)"
  shows "PeekMessage (Some WM_QUIT) \<notin> set (iterations msc p vrHmd k)"
  using assms
  by (induction k) (simp_all add: iterations_def iteration_def quit_peeked frame_no_peek)

lemma pump_messages_no_frame_events:
  "filter is_BeginFrame (snd (pump_messages keepRunning queue)) = []"
  "filter is_EndFrame (snd (pump_messages keepRunning queue)) = []"
  "filter is_Draw (snd (pump_messages keepRunning queue)) = []"
  "filter is_ResolveSubresource (snd (pump_messages keepRunning queue)) = []"
  unfolding pump_messages_events
  by (induction queue) (simp_all add: message_events_def)

lemma frame_events:
  "filter is_BeginFrame (frame msc p vrHmd n) = [ovrHmd_BeginFrame 0]"
  "length (filter is_EndFrame (frame msc p vrHmd n)) = 1"
  "filter is_Draw (frame msc p vrHmd n) = [Draw 3 0, Draw 3 0]"
  "length (filter is_ResolveSubresource (frame msc p vrHmd n)) = (if multisampling msc then 1 else 0)"
  by (simp_all add: frame_def eye_loop_def render_eye_def)

lemma cleanup_no_frame_events:
  "filter is_BeginFrame (cleanup msc) = []"
  "filter is_EndFrame (cleanup msc) = []"
  "filter is_Draw (cleanup msc) = []"
  "filter is_ResolveSubresource (cleanup msc) = []"
  by (simp_all add: cleanup_def DestroyScene_def Release_unless_nullptr_def intermediary_ptr_def)

lemma filter_suffix_empty:
  assumes "filter P xs = []" and "xs = pre @ q # post"
  shows "filter P post = []"
  using assms by (auto split: if_splits)

text \<open>
  C9. A quit message does not end the iteration in progress. When the first \<^verbatim>\<open>WM_QUIT\<close>
  is found in iteration \<open>k\<close>, the program finishes draining the queue, renders the frame
  of iteration \<open>k\<close> and then runs the cleanup and returns: after any \<^verbatim>\<open>WM_QUIT\<close> taken out
  of the queue, what remains of the run is the rest of that queue, which begins no
  frame, one complete frame (one begin, two draws, the resolve when multisampling, one
  end) and the cleanup; so exactly one frame is begun after it and none later.
\<close>

theorem one_frame_after_quit:
  assumes "hmd_Create p = Some vrHmd"
    and "\<forall>i<k. WM_QUIT \<notin> set (message_queue p i)"
    and "WM_QUIT \<in> set (message_queue p k)"
    and "run = startup @ initialization msc p vrHmd @ iterations msc p vrHmd k
               @ snd (pump_messages True (message_queue p k)) @ frame msc p vrHmd k
               @ cleanup msc"
  shows "WinMain msc p = Some (run, EXIT_SUCCESS)
       \<and> (\<forall>pre post. run = pre @ PeekMessage (Some WM_QUIT) # post \<longrightarrow>
            (\<exists>rest. post = rest @ frame msc p vrHmd k @ cleanup msc
                    \<and> filter is_BeginFrame rest = [])
            \<and> length (filter is_BeginFrame post) = 1
            \<and> length (filter is_EndFrame post) = 1
            \<and> length (filter is_Draw post) = 2
            \<and> length (filter is_ResolveSubresource post) = (if multisampling msc then 1 else 0))"
proof (intro conjI allI impI)
  show "WinMain msc p = Some (run, EXIT_SUCCESS)"
    using WinMain_quit [OF assms(1-3), of msc] assms(4) by (simp add: iteration_def)
next
  fix pre post
  assume split: "run = pre @ PeekMessage (Some WM_QUIT) # post"
  let ?A = "startup @ initialization msc p vrHmd @ iterations msc p vrHmd k"
  let ?D = "snd (pump_messages True (message_queue p k))"
  let ?F = "frame msc p vrHmd k @ cleanup msc"
  have A: "PeekMessage (Some WM_QUIT) \<notin> set ?A"
    using iterations_no_quit [OF assms(2)] by (simp add: outside_loop_no_peek)
  have F: "PeekMessage (Some WM_QUIT) \<notin> set ?F"
    by (simp add: outside_loop_no_peek frame_no_peek)
  from split assms(4) have "?A @ (?D @ ?F) = pre @ PeekMessage (Some WM_QUIT) # post"
    by simp
  from split_after_prefix [OF this A] obtain pre' where
    "?D @ ?F = pre' @ PeekMessage (Some WM_QUIT) # post"
    by blast
  from split_before_suffix [OF this F] obtain rest where
    rest: "post = rest @ ?F" "?D = pre' @ PeekMessage (Some WM_QUIT) # rest"
    by blast
  have r: "filter is_BeginFrame rest = []" "filter is_EndFrame rest = []"
    "filter is_Draw rest = []" "filter is_ResolveSubresource rest = []"
    using rest(2) pump_messages_no_frame_events [of True "message_queue p k"]
    by (auto intro: filter_suffix_empty)
  show "\<exists>rest. post = rest @ frame msc p vrHmd k @ cleanup msc \<and> filter is_BeginFrame rest = []"
    using rest(1) r(1) by blast
  show "length (filter is_BeginFrame post) = 1"
    using rest(1) r(1) by (simp add: frame_events cleanup_no_frame_events)
  show "length (filter is_EndFrame post) = 1"
    using rest(1) r(2) by (simp add: frame_events cleanup_no_frame_events)
  show "length (filter is_Draw post) = 2"
    using rest(1) r(3) by (simp add: frame_events cleanup_no_frame_events)
  show "length (filter is_ResolveSubresource post) = (if multisampling msc then 1 else 0)"
    using rest(1) r(4) by (simp add: frame_events cleanup_no_frame_events)
qed


theorem one_frame_after_quit_witness:
  "WinMain MultisampleCount (example_platform (Some example_hmd) (quit_in 1))
     = Some (startup
             @ initialization MultisampleCount
                 (example_platform (Some example_hmd) (quit_in 1)) example_hmd
             @ iterations MultisampleCount
                 (example_platform (Some example_hmd) (quit_in 1)) example_hmd 1
             @ snd (pump_messages True [WM_KEYDOWN, WM_QUIT])
             @ frame MultisampleCount
                 (example_platform (Some example_hmd) (quit_in 1)) example_hmd 1
             @ cleanup MultisampleCount, EXIT_SUCCESS)
   \<and> length (filter is_BeginFrame
         ([TranslateMessage WM_QUIT, DispatchMessage WM_QUIT, PeekMessage None]
          @ frame MultisampleCount
              (example_platform (Some example_hmd) (quit_in 1)) example_hmd 1
          @ cleanup MultisampleCount)) = 1"
proof -
  let ?p = "example_platform (Some example_hmd) (quit_in 1)"
  let ?run = "startup @ initialization MultisampleCount ?p example_hmd
              @ iterations MultisampleCount ?p example_hmd 1
              @ snd (pump_messages True (message_queue ?p 1))
              @ frame MultisampleCount ?p example_hmd 1 @ cleanup MultisampleCount"
  let ?pre = "startup @ initialization MultisampleCount ?p example_hmd
              @ iterations MultisampleCount ?p example_hmd 1
              @ [PeekMessage (Some WM_KEYDOWN), Call ovrHmd_RecenterPose,
                 Call ovrHmd_DismissHSWDisplay, TranslateMessage WM_KEYDOWN,
                 DispatchMessage WM_KEYDOWN]"
  let ?post = "[TranslateMessage WM_QUIT, DispatchMessage WM_QUIT, PeekMessage None]
               @ frame MultisampleCount ?p example_hmd 1 @ cleanup MultisampleCount"
  have q: "message_queue ?p 1 = [WM_KEYDOWN, WM_QUIT]"
    by (simp add: example_platform_simps quit_in_def)
  have h: "hmd_Create ?p = Some example_hmd"
    by (simp add: example_platform_simps)
  have before: "\<forall>i<1. WM_QUIT \<notin> set (message_queue ?p i)"
    by (simp add: example_platform_simps quit_in_def)
  have quit: "WM_QUIT \<in> set (message_queue ?p 1)"
    by (simp add: example_platform_simps quit_in_def)
  have split: "?run = ?pre @ PeekMessage (Some WM_QUIT) # ?post"
    unfolding q by (simp add: message_events_def WM_QUIT_not_WM_KEYDOWN)
  from one_frame_after_quit [OF h before quit refl, of MultisampleCount] split
  have "WinMain MultisampleCount ?p = Some (?run, EXIT_SUCCESS)"
    and "length (filter is_BeginFrame ?post) = 1"
    by blast+
  then show ?thesis
    unfolding q by simp
qed

lemma order_append:
  "acquisition_order (xs @ ys) = acquisition_order xs @ acquisition_order ys"
  "release_order (xs @ ys) = release_order xs @ release_order ys"
  by (simp_all add: acquisition_order_def release_order_def)

lemma order_message_events:
  "acquisition_order (message_events msg) = []"
  "release_order (message_events msg) = []"
  by (cases "msg = WM_KEYDOWN";
      simp add: acquisition_order_def release_order_def message_events_def)+

lemma order_pump_messages:
  "acquisition_order (snd (pump_messages keepRunning queue)) = []"
  "release_order (snd (pump_messages keepRunning queue)) = []"
  unfolding pump_messages_events
  by (induction queue)
     (simp_all add: order_append order_message_events,
      simp_all add: acquisition_order_def release_order_def)

lemma order_frame:
  "acquisition_order (frame msc p vrHmd n) = []"
  "release_order (frame msc p vrHmd n) = []"
  by (cases "multisampling msc";
      simp add: acquisition_order_def release_order_def frame_def eye_loop_def
        render_eye_def)+

lemma order_iteration:
  "acquisition_order (iteration msc p vrHmd n) = []"
  "release_order (iteration msc p vrHmd n) = []"
  by (simp_all add: iteration_def order_append order_pump_messages order_frame)

lemma acquisition_order_iterations: "acquisition_order (iterations msc p vrHmd k) = []"
  by (induction k) (simp_all add: iterations_Suc order_append order_iteration,
      simp add: iterations_def acquisition_order_def)

lemma release_order_iterations: "release_order (iterations msc p vrHmd k) = []"
  by (induction k) (simp_all add: iterations_Suc order_append order_iteration,
      simp add: iterations_def release_order_def)

lemma order_startup:
  "acquisition_order startup = []" "release_order startup = []"
  "acquisition_order no_hmd = []" "release_order no_hmd = []"
  by (simp_all add: acquisition_order_def release_order_def startup_def no_hmd_def)

lemma acquisition_order_initialization:
  "acquisition_order (initialization msc p vrHmd) =
     [d3dSwapChain, d3dDevice, d3dContext, pBackBuffer, d3dBackBufferRenderTargetView,
      d3dDepthStencilTexture, d3dDepthStencilView,
      d3dEyeTexture, d3dEyeTextureShaderResourceView, d3dEyeTextureRenderTargetView]
     @ (if multisampling msc
        then [d3dIntermediaryTexture, d3dIntermediaryTextureShaderResourceView,
              d3dIntermediaryTextureRenderTargetView]
        else [])
     @ [d3dBlobVertexShader, d3dVertexShader, d3dBlobPixelShader, d3dPixelShader,
        d3dInputLayout, d3dVertexBuffer, d3dConstantBuffer]"
  by (cases "multisampling msc")
     (simp_all add: acquisition_order_def initialization_def SetupScene_def)

lemma release_order_initialization:
  "release_order (initialization msc p vrHmd)
     = [pBackBuffer, d3dBlobPixelShader, d3dBlobVertexShader]"
  by (cases "multisampling msc")
     (simp_all add: release_order_def initialization_def SetupScene_def)

lemma acquisition_order_cleanup: "acquisition_order (cleanup msc) = []"
  by (cases "multisampling msc")
     (simp_all add: acquisition_order_def cleanup_def DestroyScene_def
        Release_unless_nullptr_def intermediary_ptr_def)

lemma release_order_cleanup:
  "release_order (cleanup msc) =
     [d3dConstantBuffer, d3dVertexBuffer, d3dInputLayout, d3dVertexShader, d3dPixelShader]
     @ (if multisampling msc
        then [d3dIntermediaryTextureShaderResourceView, d3dIntermediaryTextureRenderTargetView,
              d3dIntermediaryTexture]
        else [])
     @ [d3dDepthStencilView, d3dDepthStencilTexture,
        d3dEyeTextureRenderTargetView, d3dEyeTextureShaderResourceView, d3dEyeTexture,
        d3dBackBufferRenderTargetView, d3dSwapChain, d3dContext, d3dDevice]"
  by (cases "multisampling msc")
     (simp_all add: release_order_def cleanup_def DestroyScene_def
        Release_unless_nullptr_def intermediary_ptr_def)

lemma held_initialization:
  "held (initialization msc p vrHmd) =
     [d3dSwapChain, d3dDevice, d3dContext, d3dBackBufferRenderTargetView,
      d3dDepthStencilTexture, d3dDepthStencilView,
      d3dEyeTexture, d3dEyeTextureShaderResourceView, d3dEyeTextureRenderTargetView]
     @ (if multisampling msc
        then [d3dIntermediaryTexture, d3dIntermediaryTextureShaderResourceView,
              d3dIntermediaryTextureRenderTargetView]
        else [])
     @ [d3dVertexShader, d3dPixelShader, d3dInputLayout, d3dVertexBuffer, d3dConstantBuffer]"
  by (cases "multisampling msc")
     (simp_all add: held_def acquisition_order_initialization release_order_initialization)

lemma multisampling_MultisampleCount: "multisampling MultisampleCount"
  by (simp add: multisampling_def int32_less_def MultisampleCount_def)

text \<open>
  C4, as the claim states it: the releases at shutdown, those of \<^verbatim>\<open>DestroyScene\<close> followed
  by those of the cleanup in \<^verbatim>\<open>WinMain\<close>, are the acquisitions in reverse. They are not,
  neither for all the objects created nor for those still held at shutdown: the vertex
  shader is released before the pixel shader though created before it, and the
  depth-stencil objects before the eye texture and its views though created before them.
\<close>

theorem release_order_not_reversed:
  "release_order (cleanup MultisampleCount)
     \<noteq> rev (held (initialization MultisampleCount
                   (example_platform (Some example_hmd) never_quit) example_hmd))
   \<and> release_order (cleanup MultisampleCount)
     \<noteq> rev (acquisition_order (initialization MultisampleCount
                   (example_platform (Some example_hmd) never_quit) example_hmd))"
  by (simp add: release_order_cleanup held_initialization acquisition_order_initialization
      multisampling_MultisampleCount)

lemma run_orders:
  assumes "hmd_Create p = Some vrHmd"
    and "run = startup @ initialization msc p vrHmd @ iterations msc p vrHmd k
               @ iteration msc p vrHmd k @ cleanup msc"
  shows "distinct (acquisition_order run)"
    and "distinct (release_order run)"
    and "set (release_order run) = set (acquisition_order run)"
proof -
  have a: "acquisition_order run = acquisition_order (initialization msc p vrHmd)"
    using assms(2)
    by (simp add: order_append order_startup order_iteration acquisition_order_iterations
        acquisition_order_cleanup)
  have r: "release_order run
           = release_order (initialization msc p vrHmd) @ release_order (cleanup msc)"
    using assms(2)
    by (simp add: order_append order_startup order_iteration release_order_iterations)
  show "distinct (acquisition_order run)"
    unfolding a acquisition_order_initialization by simp
  show "distinct (release_order run)"
    unfolding r release_order_initialization release_order_cleanup by simp
  show "set (release_order run) = set (acquisition_order run)"
    unfolding a r acquisition_order_initialization release_order_initialization
      release_order_cleanup
    by (cases "multisampling msc") auto
qed

text \<open>
  C4, amended: every graphics object acquired during setup is released exactly once, the
  back buffer texture and the two shader blobs during setup itself and every other
  object at shutdown (the intermediary objects only when multisampling has created
  them). The releases at shutdown are the objects still held, each once, in the order
  of the source: the scene objects, then the intermediary objects, the depth-stencil
  objects, the eye texture with its views, the back buffer view, the swap chain, the
  context and the device last. In a whole run that returns, the same objects are
  created and released, none twice.
\<close>

theorem releases_once:
  "release_order (initialization msc p vrHmd)
     = [pBackBuffer, d3dBlobPixelShader, d3dBlobVertexShader]
   \<and> release_order (cleanup msc) =
     [d3dConstantBuffer, d3dVertexBuffer, d3dInputLayout, d3dVertexShader, d3dPixelShader]
     @ (if multisampling msc
        then [d3dIntermediaryTextureShaderResourceView, d3dIntermediaryTextureRenderTargetView,
              d3dIntermediaryTexture]
        else [])
     @ [d3dDepthStencilView, d3dDepthStencilTexture,
        d3dEyeTextureRenderTargetView, d3dEyeTextureShaderResourceView, d3dEyeTexture,
        d3dBackBufferRenderTargetView, d3dSwapChain, d3dContext, d3dDevice]
   \<and> distinct (release_order (cleanup msc))
   \<and> set (release_order (cleanup msc)) = set (held (initialization msc p vrHmd))
   \<and> (WinMain msc p = Some (run, status) \<longrightarrow>
        distinct (acquisition_order run)
        \<and> distinct (release_order run)
        \<and> set (release_order run) = set (acquisition_order run))"
proof (intro conjI impI)
  show "release_order (initialization msc p vrHmd)
     = [pBackBuffer, d3dBlobPixelShader, d3dBlobVertexShader]"
    by (rule release_order_initialization)
  show "release_order (cleanup msc) =
     [d3dConstantBuffer, d3dVertexBuffer, d3dInputLayout, d3dVertexShader, d3dPixelShader]
     @ (if multisampling msc
        then [d3dIntermediaryTextureShaderResourceView, d3dIntermediaryTextureRenderTargetView,
              d3dIntermediaryTexture]
        else [])
     @ [d3dDepthStencilView, d3dDepthStencilTexture,
        d3dEyeTextureRenderTargetView, d3dEyeTextureShaderResourceView, d3dEyeTexture,
        d3dBackBufferRenderTargetView, d3dSwapChain, d3dContext, d3dDevice]"
    by (rule release_order_cleanup)
  show "distinct (release_order (cleanup msc))"
    unfolding release_order_cleanup by simp
  show "set (release_order (cleanup msc)) = set (held (initialization msc p vrHmd))"
    unfolding release_order_cleanup held_initialization
    by (cases "multisampling msc") auto
next
  assume run: "WinMain msc p = Some (run, status)"
  from WinMain_Some [OF run]
  have "distinct (acquisition_order run) \<and> distinct (release_order run)
        \<and> set (release_order run) = set (acquisition_order run)"
  proof
    assume "hmd_Create p = None \<and> run = startup @ no_hmd \<and> status = EXIT_FAILURE"
    then show ?thesis
      by (simp add: order_append order_startup)
  next
    assume "\<exists>vrHmd k. hmd_Create p = Some vrHmd
            \<and> (\<forall>i<k. WM_QUIT \<notin> set (message_queue p i))
            \<and> WM_QUIT \<in> set (message_queue p k)
            \<and> run = startup @ initialization msc p vrHmd @ iterations msc p vrHmd k
                    @ iteration msc p vrHmd k @ cleanup msc
            \<and> status = EXIT_SUCCESS"
    then obtain h k where "hmd_Create p = Some h"
      "run = startup @ initialization msc p h @ iterations msc p h k
             @ iteration msc p h k @ cleanup msc"
      by blast
    then show ?thesis
      using run_orders [of p h run msc k] by blast
  qed
  then show "distinct (acquisition_order run)" "distinct (release_order run)"
    "set (release_order run) = set (acquisition_order run)"
    by blast+
qed

theorem releases_once_witness:
  "map_option (\<lambda>r. distinct (release_order (fst r))
                    \<and> set (release_order (fst r)) = set (acquisition_order (fst r)))
     (WinMain MultisampleCount (example_platform (Some example_hmd) (quit_in 0)))
   = Some True"
proof -
  let ?p = "example_platform (Some example_hmd) (quit_in 0)"
  obtain run where run: "WinMain MultisampleCount ?p = Some (run, EXIT_SUCCESS)"
    using WinMain_quit [of ?p example_hmd 0 MultisampleCount]
    by (simp add: example_platform_simps quit_in_def)
  from releases_once [where msc = MultisampleCount and p = ?p and run = run
      and status = EXIT_SUCCESS] run
  have "distinct (release_order run) \<and> set (release_order run) = set (acquisition_order run)"
    by blast
  with run show ?thesis by simp
qed

section \<open>Failing calls and the status returned\<close>






lemma null_call_in_initialization:
  assumes "fails d3dSwapChain \<or> fails d3dDevice \<or> fails d3dContext \<or> fails pBackBuffer
           \<or> fails d3dBlobVertexShader \<or> fails d3dBlobPixelShader"
  shows "list_ex (null_call fails) (initialization msc p vrHmd)"
proof -
  have "Create GetBuffer (Some d3dSwapChain) pBackBuffer \<in> set (initialization msc p vrHmd)"
    "Create CreateRenderTargetView (Some pBackBuffer) d3dBackBufferRenderTargetView
       \<in> set (initialization msc p vrHmd)"
    "Use IASetInputLayout d3dInputLayout \<in> set (initialization msc p vrHmd)"
    "Release pBackBuffer \<in> set (initialization msc p vrHmd)"
    "Release d3dBlobVertexShader \<in> set (initialization msc p vrHmd)"
    "Release d3dBlobPixelShader \<in> set (initialization msc p vrHmd)"
    by (simp_all add: initialization_def SetupScene_def)
  moreover have "null_call fails (Create GetBuffer (Some d3dSwapChain) pBackBuffer)
                 = fails d3dSwapChain"
    "null_call fails
       (Create CreateRenderTargetView (Some pBackBuffer) d3dBackBufferRenderTargetView)
     = fails d3dDevice"
    "null_call fails (Use IASetInputLayout d3dInputLayout) = fails d3dContext"
    "null_call fails (Release pBackBuffer) = fails pBackBuffer"
    "null_call fails (Release d3dBlobVertexShader) = fails d3dBlobVertexShader"
    "null_call fails (Release d3dBlobPixelShader) = fails d3dBlobPixelShader"
    by (simp_all add: null_call_def null_tested_def)
  ultimately show ?thesis
    using assms unfolding list_ex_iff by blast
qed











text \<open>
  A call of an iteration through a null pointer is a call through the device context,
  and then the initialization has made one before: the first call through a null
  pointer is never in the loop.
\<close>

lemma null_call_not_first_in_loop:
  assumes "list_ex (null_call fails) (iteration msc p vrHmd n)"
  shows "list_ex (null_call fails) (initialization msc p vrHmd)"
proof -
  have "\<not> list_ex (null_call fails) (concat (map message_events queue))" for queue
    by (induction queue) (simp_all add: message_events_def null_call_def)
  then have "\<not> list_ex (null_call fails) (snd (pump_messages True (message_queue p n)))"
    unfolding pump_messages_events by (simp add: null_call_def)
  with assms have "list_ex (null_call fails) (frame msc p vrHmd n)"
    by (simp add: iteration_def)
  then have "fails d3dContext"
    by (cases "multisampling msc")
       (auto simp add: frame_def eye_loop_def render_eye_def null_call_def null_tested_def)
  then show ?thesis
    by (intro null_call_in_initialization) simp
qed




end
